theory Spec2Isabelle
  imports Complex_Main
begin

section \<open>Configuration (config.js)\<close>

text \<open>
  JavaScript numbers are modelled as exact rationals (\<open>rat\<close>) where they carry scores
  and weights, and as \<open>int\<close> where they carry counters and millisecond clocks.
  Identifiers are strings; the empty string stands for \<open>undefined\<close> (both are falsy,
  and the code only ever tests identifiers for truthiness).
\<close>

definition DIMENSIONS :: "string list" where
  "DIMENSIONS = [''instruction'', ''hallucination'', ''assumption'', ''coherence'', ''accuracy'']"

definition DEFAULT_WEIGHTS :: "(string \<times> rat) list" where
  "DEFAULT_WEIGHTS =
     [(''instruction'', 2 / 10), (''hallucination'', 25 / 100), (''assumption'', 2 / 10),
      (''coherence'', 15 / 100), (''accuracy'', 2 / 10)]"

text \<open>
  \<^verbatim>\<open>MAX_RETRIES: parseInt(process.env.MAX_RETRIES) || 3\<close>. The argument is the result
  of \<open>parseInt\<close> (\<open>None\<close> for NaN); 0 and NaN are falsy and give the default.
\<close>

definition MAX_RETRIES :: "int option \<Rightarrow> int" where
  "MAX_RETRIES env = (case env of None \<Rightarrow> 3 | Some n \<Rightarrow> if n = 0 then 3 else n)"

definition truthy :: "string \<Rightarrow> bool" where
  "truthy s = (s \<noteq> [])"

section \<open>Data\<close>

text \<open>
  A JavaScript number: a finite double (taken as the rational it denotes), NaN, or an
  infinity, which is what \<open>JSON.parse\<close> gives for a literal beyond the range of the
  doubles, such as \<open>1e400\<close>.
\<close>

datatype jsnum = Num rat | NaN | PosInf | NegInf

text \<open>The task on the main queue and on the legacy task queue (a JSON object).\<close>

record main_task =
  mt_task_id :: string
  mt_response_id :: string
  mt_batch_id :: string
  mt_agent_id :: string
  mt_prompt :: string
  mt_response_text :: string
  mt_context :: string
  mt_reference :: string
  mt_metadata :: string
  mt_dimensions :: "string list"
  mt_retry_reason :: "string option"
  mt_created_at :: int
  mt_retry_count :: "int option"
  mt_last_retry_at :: "int option"

record dimension_task =
  dt_task_id :: string
  dt_dimension :: string
  dt_response_id :: string
  dt_batch_id :: string
  dt_agent_id :: string
  dt_prompt :: string
  dt_response_text :: string
  dt_context :: string
  dt_reference :: string
  dt_metadata :: string

text \<open>
  A result popped from the results queue. Only the six fields that
  \<open>processDimensionResult\<close> destructures are kept. A field is \<open>None\<close> when it is
  absent or \<open>null\<close>; \<open>details\<close> is an object with string values.
\<close>

record dimension_result =
  dr_task_id :: string
  dr_dimension :: string
  dr_response_id :: string
  dr_score :: "jsnum option"
  dr_details :: "(string \<times> string) list option"
  dr_error :: "string option"

text \<open>
  The value stored under one field of the hash \<open>task:<id>:results\<close>, as it is parsed
  back from JSON: the score is a finite number or \<open>null\<close> (\<open>None\<close>).
\<close>

record partial_result =
  pr_score :: "rat option"
  pr_details :: "(string \<times> string) list"
  pr_error :: "string option"
  pr_completed_at :: int

record task_info =
  ti_mainTask :: main_task
  ti_startTime :: int
  ti_completedDimensions :: "string list"
  ti_totalDimensions :: nat

record response_doc =
  r_batch_id :: string
  r_agent_id :: string
  r_prompt :: string
  r_response_text :: string
  r_context :: string
  r_reference :: string
  r_metadata :: string
  r_status :: string

record evaluation =
  ev_response_id :: string
  ev_batch_id :: string
  ev_agent_id :: string
  ev_scores :: "(string \<times> rat) list"
  ev_final_score :: rat
  ev_processing_errors :: "string list"
  ev_processing_time_ms :: int
  ev_processed_at :: int
  ev_processed_by :: string
  ev_task_id :: string

record batch_doc =
  b_status :: string
  b_progress :: "(string \<times> nat) list option"

text \<open>
  The whole system: the fields of the \<open>MasterOrchestrator\<close> object, the Redis keys and
  the MongoDB collections. \<open>dispatching\<close> lists the calls of \<open>processMainTask\<close> that
  have been started by the dispatch loop (which does not await them) and have not yet
  run to their \<open>finally\<close> block. JavaScript objects and \<open>Map\<close>s are association lists
  in insertion order.
\<close>

record system =
  workerId :: string
  maxConcurrentTasks :: int
  runningTasks :: int
  activeTasks :: "(string \<times> task_info) list"
  taskTimeout :: int
  dispatching :: "main_task list"
  main_queue :: "main_task list"
  task_queue :: "main_task list"
  dimension_queues :: "(string \<times> dimension_task list) list"
  results_queue :: "dimension_result list"
  partial_hashes :: "(string \<times> (string \<times> partial_result) list) list"
  responses :: "(string \<times> response_doc) list"
  evaluations :: "evaluation list"
  batches :: "(string \<times> batch_doc) list"

datatype store_error = DuplicateKey

datatype queue_error = PushRejected

section \<open>Objects as association lists\<close>

text \<open>\<^verbatim>\<open>obj[k] = v\<close>: overwrite in place, or append a new key.\<close>

fun set_field :: "string \<Rightarrow> 'v \<Rightarrow> (string \<times> 'v) list \<Rightarrow> (string \<times> 'v) list" where
  "set_field k v [] = [(k, v)]"
| "set_field k v ((k', w) # kvs) =
     (if k' = k then (k, v) # kvs else (k', w) # set_field k v kvs)"

definition delete_field :: "string \<Rightarrow> (string \<times> 'v) list \<Rightarrow> (string \<times> 'v) list" where
  "delete_field k kvs = filter (\<lambda>kv. fst kv \<noteq> k) kvs"

section \<open>Redis operations (redisClient.js)\<close>

definition queue_of :: "string \<Rightarrow> system \<Rightarrow> dimension_task list" where
  "queue_of dimension s =
     (case map_of (dimension_queues s) dimension of None \<Rightarrow> [] | Some q \<Rightarrow> q)"

definition addDimensionTask :: "string \<Rightarrow> dimension_task \<Rightarrow> system \<Rightarrow> system" where
  "addDimensionTask dimension taskData s =
     s\<lparr>dimension_queues :=
          set_field dimension (queue_of dimension s @ [taskData]) (dimension_queues s)\<rparr>"

text \<open>
  \<open>addMainTask\<close> spreads the task, then sets \<open>task_id\<close> (a fresh uuid when falsy),
  \<open>created_at\<close> and \<open>retry_count: 0\<close>. It returns the new length of the list, as
  \<open>rPush\<close> does.
\<close>

definition addMainTask :: "int \<Rightarrow> string \<Rightarrow> main_task \<Rightarrow> system \<Rightarrow> nat \<times> system" where
  "addMainTask now uuid taskData s =
     (let t = taskData\<lparr>mt_task_id := (if truthy (mt_task_id taskData) then mt_task_id taskData else uuid),
                        mt_created_at := now,
                        mt_retry_count := Some 0\<rparr>;
          q = main_queue s @ [t]
      in (length q, s\<lparr>main_queue := q\<rparr>))"

definition retry_count_or_zero :: "main_task \<Rightarrow> int" where
  "retry_count_or_zero t = (case mt_retry_count t of None \<Rightarrow> 0 | Some n \<Rightarrow> n)"

text \<open>
  \<open>requeueMainTask\<close> and \<open>requeueTask\<close> return the length of the list from the push
  (truthy), or \<open>false\<close>, here \<open>None\<close>, when the retry ceiling is exceeded. The flag
  \<open>push_rejects\<close> says that the push inside \<open>addMainTask\<close> rejects: the exception
  leaves \<open>requeueMainTask\<close> with nothing pushed.
\<close>

definition requeueMainTask ::
  "bool \<Rightarrow> int \<Rightarrow> int \<Rightarrow> string \<Rightarrow> main_task \<Rightarrow> system
     \<Rightarrow> queue_error + nat option \<times> system" where
  "requeueMainTask push_rejects max_retries now uuid taskData s =
     (let updatedTask = taskData\<lparr>mt_retry_count := Some (retry_count_or_zero taskData + 1),
                                  mt_last_retry_at := Some now\<rparr>
      in if retry_count_or_zero updatedTask \<le> max_retries
         then (if push_rejects then Inl PushRejected
               else (case addMainTask now uuid updatedTask s of (n, s') \<Rightarrow> Inr (Some n, s')))
         else Inr (None, s))"

definition requeueTask :: "int \<Rightarrow> int \<Rightarrow> main_task \<Rightarrow> system \<Rightarrow> nat option \<times> system" where
  "requeueTask max_retries now taskData s =
     (let updatedTask = taskData\<lparr>mt_retry_count := Some (retry_count_or_zero taskData + 1),
                                  mt_last_retry_at := Some now\<rparr>
      in if retry_count_or_zero updatedTask \<le> max_retries
         then (let q = task_queue s @ [updatedTask] in (Some (length q), s\<lparr>task_queue := q\<rparr>))
         else (None, s))"

text \<open>\<open>getMainTask\<close>: pop the head of the main queue, \<open>None\<close> when it is empty.\<close>

definition getMainTask :: "system \<Rightarrow> main_task option \<times> system" where
  "getMainTask s =
     (case main_queue s of [] \<Rightarrow> (None, s) | t # q \<Rightarrow> (Some t, s\<lparr>main_queue := q\<rparr>))"

definition getPartialResults :: "string \<Rightarrow> system \<Rightarrow> (string \<times> partial_result) list" where
  "getPartialResults taskId s =
     (case map_of (partial_hashes s) taskId of None \<Rightarrow> [] | Some h \<Rightarrow> h)"

text \<open>
  \<open>setPartialResult\<close>: \<open>hSet\<close> then \<open>hLen\<close>. The expiry of the key (3600 s) is not
  modelled.
\<close>

definition setPartialResult ::
  "string \<Rightarrow> string \<Rightarrow> partial_result \<Rightarrow> system \<Rightarrow> nat \<times> system" where
  "setPartialResult taskId dimension result s =
     (let h = set_field dimension result (getPartialResults taskId s)
      in (length h, s\<lparr>partial_hashes := set_field taskId h (partial_hashes s)\<rparr>))"

definition deletePartialResults :: "string \<Rightarrow> system \<Rightarrow> system" where
  "deletePartialResults taskId s =
     s\<lparr>partial_hashes := delete_field taskId (partial_hashes s)\<rparr>"

section \<open>Store operations (dbClient.js)\<close>

text \<open>
  The only error a store operation raises here is the duplicate-key error of the unique
  index on \<open>evaluations.response_id\<close>; of the network and driver failures, only a
  rejected call during the dispatch of a task and a rejected push of its requeue are
  modelled (see \<open>processMainTask_finish\<close> and \<open>handleTaskFailure\<close>).
  \<open>updateOne\<close> on an identifier that matches no document changes nothing.
\<close>

definition getResponseById :: "string \<Rightarrow> system \<Rightarrow> response_doc option" where
  "getResponseById responseId s = map_of (responses s) responseId"

definition updateResponseStatus :: "string \<Rightarrow> string \<Rightarrow> system \<Rightarrow> system" where
  "updateResponseStatus responseId status s =
     s\<lparr>responses :=
          map (\<lambda>(i, r). if i = responseId then (i, r\<lparr>r_status := status\<rparr>) else (i, r))
            (responses s)\<rparr>"

definition insertEvaluation :: "evaluation \<Rightarrow> system \<Rightarrow> store_error + system" where
  "insertEvaluation evaluationData s =
     (if ev_response_id evaluationData \<in> set (map ev_response_id (evaluations s))
      then Inl DuplicateKey
      else Inr (s\<lparr>evaluations := evaluations s @ [evaluationData]\<rparr>))"

definition updateBatchStatus ::
  "string \<Rightarrow> string \<Rightarrow> (string \<times> nat) list option \<Rightarrow> system \<Rightarrow> system" where
  "updateBatchStatus batchId status progress s =
     s\<lparr>batches :=
          map (\<lambda>(i, b). if i = batchId
                 then (i, (case progress of None \<Rightarrow> b\<lparr>b_status := status\<rparr>
                           | Some p \<Rightarrow> b\<lparr>b_status := status, b_progress := Some p\<rparr>))
                 else (i, b))
            (batches s)\<rparr>"

text \<open>
  \<open>getBatchProgress\<close>: the \<open>$match\<close>/\<open>$group\<close> pipeline gives one (status, count)
  pair per status that occurs in the batch (here in order of first occurrence); the
  \<open>forEach\<close> writes each count under its status and adds it to \<open>total\<close>.
\<close>

definition batch_statuses :: "string \<Rightarrow> system \<Rightarrow> string list" where
  "batch_statuses batchId s =
     map (\<lambda>ir. r_status (snd ir)) (filter (\<lambda>ir. r_batch_id (snd ir) = batchId) (responses s))"

definition status_groups :: "string list \<Rightarrow> (string \<times> nat) list" where
  "status_groups sts = map (\<lambda>st. (st, count_list sts st)) (remdups sts)"

definition count_of :: "(string \<times> nat) list \<Rightarrow> string \<Rightarrow> nat" where
  "count_of progress k = (case map_of progress k of None \<Rightarrow> 0 | Some n \<Rightarrow> n)"

definition progress_init :: "(string \<times> nat) list" where
  "progress_init =
     [(''pending'', 0), (''processing'', 0), (''completed'', 0), (''failed'', 0), (''total'', 0)]"

definition progress_add :: "(string \<times> nat) list \<Rightarrow> string \<times> nat \<Rightarrow> (string \<times> nat) list" where
  "progress_add progress result =
     (let p1 = set_field (fst result) (snd result) progress
      in set_field ''total'' (count_of p1 ''total'' + snd result) p1)"

definition getBatchProgress :: "string \<Rightarrow> system \<Rightarrow> (string \<times> nat) list" where
  "getBatchProgress batchId s =
     foldl progress_add progress_init (status_groups (batch_statuses batchId s))"

section \<open>Enqueue facade (enqueue.js)\<close>

definition task_of_response :: "int \<Rightarrow> string \<Rightarrow> string \<Rightarrow> response_doc \<Rightarrow> main_task" where
  "task_of_response now responseId batchId response =
     \<lparr>mt_task_id = [], mt_response_id = responseId, mt_batch_id = batchId,
      mt_agent_id = r_agent_id response, mt_prompt = r_prompt response,
      mt_response_text = r_response_text response, mt_context = r_context response,
      mt_reference = r_reference response, mt_metadata = r_metadata response,
      mt_dimensions = DIMENSIONS, mt_retry_reason = None, mt_created_at = now,
      mt_retry_count = None, mt_last_retry_at = None\<rparr>"

text \<open>
  The loop of \<open>enqueueBatch\<close>: push each task with a fresh task id (\<open>uuid n\<close> is the
  n-th identifier drawn), count it, mark the response \<open>queued\<close>.
\<close>

fun enqueue_loop ::
  "int \<Rightarrow> (nat \<Rightarrow> string) \<Rightarrow> string \<Rightarrow> (string \<times> response_doc) list \<Rightarrow> nat \<Rightarrow> system \<Rightarrow> nat \<times> system" where
  "enqueue_loop now uuid batchId [] enqueuedCount s = (enqueuedCount, s)"
| "enqueue_loop now uuid batchId (ir # rest) enqueuedCount s =
     (let task = task_of_response now (fst ir) batchId (snd ir);
          s1 = snd (addMainTask now (uuid enqueuedCount) (task\<lparr>mt_task_id := uuid enqueuedCount\<rparr>) s);
          s2 = updateResponseStatus (mt_response_id task) ''queued'' s1
      in enqueue_loop now uuid batchId rest (enqueuedCount + 1) s2)"

definition enqueueBatch ::
  "int \<Rightarrow> (nat \<Rightarrow> string) \<Rightarrow> string \<Rightarrow> (string \<times> response_doc) list \<Rightarrow> system \<Rightarrow> nat \<times> system" where
  "enqueueBatch now uuid batchId resps s =
     (case enqueue_loop now uuid batchId resps 0 s of
        (enqueuedCount, s1) \<Rightarrow>
          (enqueuedCount,
           updateBatchStatus batchId ''processing''
             (Some [(''total'', length resps), (''queued'', enqueuedCount), (''processing'', 0),
                    (''completed'', 0), (''failed'', 0)]) s1))"

datatype enqueue_error = ResponseNotFound

text \<open>
  The two results of \<open>requeueFailedResponse\<close>: \<^verbatim>\<open>{ success: true }\<close> and
  \<^verbatim>\<open>{ success: false, reason: 'max_retries_exceeded' }\<close>.
\<close>

datatype requeue_outcome = Requeued | MaxRetriesExceeded

definition push_succeeded :: "nat option \<Rightarrow> bool" where
  "push_succeeded r = (case r of None \<Rightarrow> False | Some n \<Rightarrow> n \<noteq> 0)"

definition requeueFailedResponse ::
  "int \<Rightarrow> int \<Rightarrow> string \<Rightarrow> string \<Rightarrow> system \<Rightarrow> enqueue_error + (requeue_outcome \<times> system)" where
  "requeueFailedResponse max_retries now responseId reason s =
     (case getResponseById responseId s of
        None \<Rightarrow> Inl ResponseNotFound
      | Some response \<Rightarrow>
          (let task = (task_of_response now responseId (r_batch_id response) response)
                        \<lparr>mt_retry_reason := Some reason\<rparr>
           in case requeueTask max_retries now task s of
                (success, s1) \<Rightarrow>
                  if push_succeeded success
                  then Inr (Requeued, updateResponseStatus responseId ''queued'' s1)
                  else Inr (MaxRetriesExceeded, updateResponseStatus responseId ''failed'' s1)))"

section \<open>Master orchestrator (masterOrchestrator.js)\<close>

subsection \<open>Dispatch\<close>

text \<open>
  The dispatch loop calls \<open>processMainTask\<close> without awaiting it: the call runs up to
  its first \<open>await\<close> (\<open>processMainTask_start\<close>: the counter is incremented) and the
  rest runs later (\<open>processMainTask_finish\<close>, up to the \<open>finally\<close> block). The
  \<open>try\<close> block awaits seven calls: call 0 sets the worker status, call 1 is the store
  update to \<open>processing\<close>, calls 2 to 6 push onto the five dimension queues. The
  argument \<open>fault\<close> names the call that rejects, if any: the calls before it have taken
  effect, and the rejection enters the \<open>catch\<close> block, which calls
  \<open>handleTaskFailure\<close>. There the requeue is itself in a \<open>try\<close> block: when its push
  rejects, the \<open>catch\<close> block of \<open>handleTaskFailure\<close> marks the record failed.
\<close>

definition processMainTask_start :: "main_task \<Rightarrow> system \<Rightarrow> system" where
  "processMainTask_start mainTask s =
     s\<lparr>runningTasks := runningTasks s + 1, dispatching := dispatching s @ [mainTask]\<rparr>"

definition dimension_task_of :: "main_task \<Rightarrow> string \<Rightarrow> dimension_task" where
  "dimension_task_of mainTask dimension =
     \<lparr>dt_task_id = mt_task_id mainTask, dt_dimension = dimension,
      dt_response_id = mt_response_id mainTask, dt_batch_id = mt_batch_id mainTask,
      dt_agent_id = mt_agent_id mainTask, dt_prompt = mt_prompt mainTask,
      dt_response_text = mt_response_text mainTask, dt_context = mt_context mainTask,
      dt_reference = mt_reference mainTask, dt_metadata = mt_metadata mainTask\<rparr>"

definition handleTaskFailure ::
  "bool \<Rightarrow> int \<Rightarrow> int \<Rightarrow> string \<Rightarrow> main_task \<Rightarrow> system \<Rightarrow> system" where
  "handleTaskFailure push_rejects max_retries now uuid mainTask s =
     (case requeueMainTask push_rejects max_retries now uuid mainTask s of
        Inr (success, s1) \<Rightarrow>
          if push_succeeded success then s1
          else updateResponseStatus (mt_response_id mainTask) ''failed'' s1
      | Inl err \<Rightarrow> updateResponseStatus (mt_response_id mainTask) ''failed'' s)"

definition calls_done :: "nat option \<Rightarrow> nat" where
  "calls_done fault =
     (case fault of None \<Rightarrow> 2 + length DIMENSIONS | Some k \<Rightarrow> min k (2 + length DIMENSIONS))"

definition processMainTask_try :: "nat \<Rightarrow> int \<Rightarrow> main_task \<Rightarrow> system \<Rightarrow> system" where
  "processMainTask_try n now mainTask s =
     (let s1 = (if n < 2 then s
                else (let s2 = updateResponseStatus (mt_response_id mainTask) ''processing'' s
                      in s2\<lparr>activeTasks :=
                               set_field (mt_task_id mainTask)
                                 \<lparr>ti_mainTask = mainTask, ti_startTime = now,
                                  ti_completedDimensions = [],
                                  ti_totalDimensions = length DIMENSIONS\<rparr>
                                 (activeTasks s2)\<rparr>))
      in foldl (\<lambda>st dimension.
                  addDimensionTask dimension (dimension_task_of mainTask dimension) st)
           s1 (take (n - 2) DIMENSIONS))"

definition processMainTask_finish ::
  "nat option \<Rightarrow> bool \<Rightarrow> int \<Rightarrow> int \<Rightarrow> string \<Rightarrow> main_task \<Rightarrow> system \<Rightarrow> system" where
  "processMainTask_finish fault push_rejects max_retries now uuid mainTask s =
     (let s1 = processMainTask_try (calls_done fault) now mainTask s;
          s2 = (if calls_done fault < 2 + length DIMENSIONS
                then (let s3 = handleTaskFailure push_rejects max_retries now uuid mainTask s1
                      in s3\<lparr>activeTasks := delete_field (mt_task_id mainTask) (activeTasks s3)\<rparr>)
                else s1)
      in s2\<lparr>runningTasks := runningTasks s2 - 1, dispatching := remove1 mainTask (dispatching s2)\<rparr>)"

text \<open>One iteration of the \<open>while\<close> loop of \<open>processMainQueue\<close>.\<close>

definition processMainQueue_iter :: "system \<Rightarrow> system" where
  "processMainQueue_iter s =
     (if runningTasks s \<ge> maxConcurrentTasks s then s
      else (case getMainTask s of
              (Some mainTask, s1) \<Rightarrow> processMainTask_start mainTask s1
            | (None, s1) \<Rightarrow> s1))"

subsection \<open>Collector and finaliser\<close>

text \<open>
  \<^verbatim>\<open>score || 0.0\<close>: 0, NaN, \<open>null\<close> and \<open>undefined\<close> are falsy, an infinity is
  not. \<open>JSON.stringify\<close> then writes a finite number as it is and an infinity as
  \<open>null\<close>; the finaliser reads the stored score through \<^verbatim>\<open>result.score || 0.0\<close>.
\<close>

definition score_or_zero :: "jsnum option \<Rightarrow> jsnum" where
  "score_or_zero score =
     (case score of
        None \<Rightarrow> Num 0
      | Some NaN \<Rightarrow> Num 0
      | Some (Num x) \<Rightarrow> (if x = 0 then Num 0 else Num x)
      | Some PosInf \<Rightarrow> PosInf
      | Some NegInf \<Rightarrow> NegInf)"

definition json_number :: "jsnum \<Rightarrow> rat option" where
  "json_number n = (case n of Num x \<Rightarrow> Some x | NaN \<Rightarrow> None | PosInf \<Rightarrow> None | NegInf \<Rightarrow> None)"

definition read_score :: "partial_result \<Rightarrow> rat" where
  "read_score result =
     (case pr_score result of None \<Rightarrow> 0 | Some x \<Rightarrow> (if x = 0 then 0 else x))"

definition error_or_null :: "string option \<Rightarrow> string option" where
  "error_or_null error =
     (case error of None \<Rightarrow> None | Some e \<Rightarrow> (if truthy e then Some e else None))"

definition details_or_empty :: "(string \<times> string) list option \<Rightarrow> (string \<times> string) list" where
  "details_or_empty details = (case details of None \<Rightarrow> [] | Some d \<Rightarrow> d)"

text \<open>\<^verbatim>\<open>config.DEFAULT_WEIGHTS[dimension] || 0.2\<close>\<close>

definition weight_of :: "string \<Rightarrow> rat" where
  "weight_of dimension =
     (case map_of DEFAULT_WEIGHTS dimension of
        None \<Rightarrow> 2 / 10
      | Some w \<Rightarrow> (if w = 0 then 2 / 10 else w))"

record aggregation =
  ag_finalScore :: rat
  ag_totalWeight :: rat
  ag_scores :: "(string \<times> rat) list"
  ag_hasErrors :: bool
  ag_allErrors :: "string list"

text \<open>The body of the \<open>for\<close> loop over \<open>config.DIMENSIONS\<close> in \<open>finalizeTaskWithInfo\<close>.\<close>

definition aggregate_step ::
  "(string \<times> partial_result) list \<Rightarrow> aggregation \<Rightarrow> string \<Rightarrow> aggregation" where
  "aggregate_step dimensionResults a dimension =
     (case map_of dimensionResults dimension of
        Some result \<Rightarrow>
          (let score = read_score result;
               weight = weight_of dimension;
               a1 = a\<lparr>ag_finalScore := ag_finalScore a + score * weight,
                       ag_totalWeight := ag_totalWeight a + weight,
                       ag_scores := set_field dimension score (ag_scores a)\<rparr>
           in (case error_or_null (pr_error result) of
                 Some e \<Rightarrow> a1\<lparr>ag_hasErrors := True,
                               ag_allErrors := ag_allErrors a1 @ [dimension @ '': '' @ e]\<rparr>
               | None \<Rightarrow> a1))
      | None \<Rightarrow>
          a\<lparr>ag_scores := set_field dimension 0 (ag_scores a),
            ag_hasErrors := True,
            ag_allErrors := ag_allErrors a @ [dimension @ '': Missing result'']\<rparr>)"

definition aggregate :: "(string \<times> partial_result) list \<Rightarrow> aggregation" where
  "aggregate dimensionResults =
     (let a = foldl (aggregate_step dimensionResults)
                \<lparr>ag_finalScore = 0, ag_totalWeight = 0, ag_scores = [],
                 ag_hasErrors = False, ag_allErrors = []\<rparr> DIMENSIONS
      in a\<lparr>ag_finalScore :=
             (if ag_totalWeight a > 0 then ag_finalScore a / ag_totalWeight a else 0)\<rparr>)"

definition details_response_id :: "partial_result \<Rightarrow> string" where
  "details_response_id result =
     (case map_of (pr_details result) ''response_id'' of None \<Rightarrow> [] | Some r \<Rightarrow> r)"

text \<open>The first truthy \<open>details.response_id\<close> among the stored results.\<close>

definition first_details_response_id :: "(string \<times> partial_result) list \<Rightarrow> string" where
  "first_details_response_id dimensionResults =
     (case filter truthy (map (\<lambda>kv. details_response_id (snd kv)) dimensionResults) of
        [] \<Rightarrow> []
      | r # _ \<Rightarrow> r)"

definition updateBatchProgress :: "string \<Rightarrow> system \<Rightarrow> system" where
  "updateBatchProgress batchId s =
     (let progress = getBatchProgress batchId s
      in if map_of progress ''pending'' = Some 0 \<and> map_of progress ''processing'' = Some 0
         then updateBatchStatus batchId ''completed'' (Some progress) s
         else updateBatchStatus batchId ''processing'' (Some progress) s)"

definition info_response_id :: "task_info option \<Rightarrow> string" where
  "info_response_id taskInfo =
     (case taskInfo of None \<Rightarrow> [] | Some ti \<Rightarrow> mt_response_id (ti_mainTask ti))"

definition info_batch_id :: "task_info option \<Rightarrow> string" where
  "info_batch_id taskInfo =
     (case taskInfo of None \<Rightarrow> [] | Some ti \<Rightarrow> mt_batch_id (ti_mainTask ti))"

definition info_agent_id :: "task_info option \<Rightarrow> string" where
  "info_agent_id taskInfo =
     (case taskInfo of None \<Rightarrow> [] | Some ti \<Rightarrow> mt_agent_id (ti_mainTask ti))"

text \<open>The response id the finaliser settles on (empty: none can be determined).\<close>

definition resolve_response_id ::
  "task_info option \<Rightarrow> (string \<times> partial_result) list \<Rightarrow> string" where
  "resolve_response_id taskInfo dimensionResults =
     (if truthy (info_response_id taskInfo) then info_response_id taskInfo
      else first_details_response_id dimensionResults)"

definition evaluation_of ::
  "int \<Rightarrow> string \<Rightarrow> task_info option \<Rightarrow> (string \<times> partial_result) list \<Rightarrow> system \<Rightarrow> evaluation" where
  "evaluation_of now taskId taskInfo dimensionResults s =
     (let a = aggregate dimensionResults;
          responseId = resolve_response_id taskInfo dimensionResults;
          response = (if \<not> truthy (info_batch_id taskInfo) \<or> \<not> truthy (info_agent_id taskInfo)
                      then getResponseById responseId s else None)
      in \<lparr>ev_response_id = responseId,
          ev_batch_id = (case response of None \<Rightarrow> info_batch_id taskInfo | Some r \<Rightarrow> r_batch_id r),
          ev_agent_id = (case response of None \<Rightarrow> info_agent_id taskInfo | Some r \<Rightarrow> r_agent_id r),
          ev_scores = ag_scores a,
          ev_final_score = ag_finalScore a,
          ev_processing_errors = (if ag_hasErrors a then ag_allErrors a else []),
          ev_processing_time_ms = (case taskInfo of None \<Rightarrow> 0 | Some ti \<Rightarrow> now - ti_startTime ti),
          ev_processed_at = now,
          ev_processed_by = workerId s,
          ev_task_id = taskId\<rparr>)"

text \<open>
  \<open>finalizeTaskWithInfo\<close>. The two early returns leave the state as it is. The
  \<open>Inl\<close> branch is the \<open>catch\<close> block, entered when \<open>insertEvaluation\<close> rejects.
\<close>

definition finalizeTaskWithInfo :: "int \<Rightarrow> string \<Rightarrow> task_info option \<Rightarrow> system \<Rightarrow> system" where
  "finalizeTaskWithInfo now taskId taskInfo s =
     (let dimensionResults = getPartialResults taskId s
      in if length dimensionResults < length DIMENSIONS then s
         else if \<not> truthy (resolve_response_id taskInfo dimensionResults) then s
         else (let evaluationData = evaluation_of now taskId taskInfo dimensionResults s
               in case insertEvaluation evaluationData s of
                    Inr s1 \<Rightarrow>
                      (let s2 = updateResponseStatus (ev_response_id evaluationData) ''completed'' s1;
                           s3 = updateBatchProgress (ev_batch_id evaluationData) s2;
                           s4 = s3\<lparr>activeTasks := delete_field taskId (activeTasks s3)\<rparr>
                       in deletePartialResults taskId s4)
                  | Inl err \<Rightarrow>
                      (let s2 = (if truthy (info_response_id taskInfo)
                                 then updateResponseStatus (info_response_id taskInfo) ''failed'' s
                                 else s);
                           s3 = s2\<lparr>activeTasks := delete_field taskId (activeTasks s2)\<rparr>
                       in deletePartialResults taskId s3)))"

definition finalizeTask :: "int \<Rightarrow> string \<Rightarrow> system \<Rightarrow> system" where
  "finalizeTask now taskId s =
     (case map_of (activeTasks s) taskId of
        None \<Rightarrow> s
      | Some taskInfo \<Rightarrow> finalizeTaskWithInfo now taskId (Some taskInfo) s)"

definition finalizeTaskById :: "int \<Rightarrow> string \<Rightarrow> system \<Rightarrow> system" where
  "finalizeTaskById now taskId s =
     (if length (getPartialResults taskId s) = 0 then s
      else finalizeTaskWithInfo now taskId None s)"

text \<open>The record that \<open>processDimensionResult\<close> writes into the hash.\<close>

definition stored_result :: "int \<Rightarrow> dimension_result \<Rightarrow> partial_result" where
  "stored_result now result =
     \<lparr>pr_score = json_number (score_or_zero (dr_score result)),
      pr_details = details_or_empty (dr_details result),
      pr_error = error_or_null (dr_error result),
      pr_completed_at = now\<rparr>"

definition processDimensionResult :: "int \<Rightarrow> dimension_result \<Rightarrow> system \<Rightarrow> system" where
  "processDimensionResult now result s =
     (case setPartialResult (dr_task_id result) (dr_dimension result) (stored_result now result) s of
        (completedDimensions, s1) \<Rightarrow>
          (case map_of (activeTasks s1) (dr_task_id result) of
             Some taskInfo \<Rightarrow>
               (let s2 = s1\<lparr>activeTasks :=
                             set_field (dr_task_id result)
                               (taskInfo\<lparr>ti_completedDimensions :=
                                   List.insert (dr_dimension result) (ti_completedDimensions taskInfo)\<rparr>)
                               (activeTasks s1)\<rparr>
                in if completedDimensions \<ge> length DIMENSIONS
                   then finalizeTask now (dr_task_id result) s2 else s2)
           | None \<Rightarrow>
               (if completedDimensions \<ge> length DIMENSIONS
                then finalizeTaskById now (dr_task_id result) s1 else s1)))"

subsection \<open>Timeout sweeper\<close>

definition timeoutTasks :: "int \<Rightarrow> system \<Rightarrow> (string \<times> task_info) list" where
  "timeoutTasks now s =
     filter (\<lambda>e. now - ti_startTime (snd e) > taskTimeout s) (activeTasks s)"

definition handle_timeout :: "system \<Rightarrow> string \<times> task_info \<Rightarrow> system" where
  "handle_timeout s e =
     (let s1 = (if truthy (mt_response_id (ti_mainTask (snd e)))
                then updateResponseStatus (mt_response_id (ti_mainTask (snd e))) ''failed'' s
                else s);
          s2 = s1\<lparr>activeTasks := delete_field (fst e) (activeTasks s1)\<rparr>
      in deletePartialResults (fst e) s2)"

definition checkTaskTimeouts :: "int \<Rightarrow> system \<Rightarrow> system" where
  "checkTaskTimeouts now s = foldl handle_timeout s (timeoutTasks now s)"

subsection \<open>The loops as a transition system\<close>

text \<open>
  The orchestrator is a single-threaded event loop: between two \<open>await\<close>s a piece of
  code runs alone. An event is one such piece, with the store and broker calls it
  awaits taken as completing at once: an iteration of the dispatch loop, the completion
  of a started \<open>processMainTask\<close> (with the call that rejects, if any, and whether
  the push of the requeue rejects), a worker
  pushing a result, an iteration of the collector loop, a run of the sweeper.
\<close>

datatype event =
    MainLoop
  | Dispatch string "nat option" bool
  | WorkerPush dimension_result
  | Collect
  | Sweep

definition collectResults_iter :: "int \<Rightarrow> system \<Rightarrow> system" where
  "collectResults_iter now s =
     (case results_queue s of
        [] \<Rightarrow> s
      | result # q \<Rightarrow> processDimensionResult now result (s\<lparr>results_queue := q\<rparr>))"

definition step :: "int \<Rightarrow> int \<Rightarrow> string \<Rightarrow> event \<Rightarrow> system \<Rightarrow> system" where
  "step max_retries now uuid e s =
     (case e of
        MainLoop \<Rightarrow> processMainQueue_iter s
      | Dispatch taskId fault push_rejects \<Rightarrow>
          (case filter (\<lambda>t. mt_task_id t = taskId) (dispatching s) of
             [] \<Rightarrow> s
           | mainTask # _ \<Rightarrow>
               processMainTask_finish fault push_rejects max_retries now uuid mainTask s)
      | WorkerPush result \<Rightarrow> s\<lparr>results_queue := results_queue s @ [result]\<rparr>
      | Collect \<Rightarrow> collectResults_iter now s
      | Sweep \<Rightarrow> checkTaskTimeouts now s)"

text \<open>A run: each event comes with the clock reading and the uuid drawn during it.\<close>

fun run :: "int \<Rightarrow> (int \<times> string \<times> event) list \<Rightarrow> system \<Rightarrow> system" where
  "run max_retries [] s = s"
| "run max_retries (e # es) s =
     run max_retries es (step max_retries (fst e) (fst (snd e)) (snd (snd e)) s)"

section \<open>A concrete batch\<close>

definition ex_response :: "string \<Rightarrow> response_doc" where
  "ex_response agent =
     \<lparr>r_batch_id = ''b1'', r_agent_id = agent, r_prompt = ''p'', r_response_text = ''x'',
      r_context = [], r_reference = [], r_metadata = [], r_status = ''pending''\<rparr>"

definition ex_init :: "int \<Rightarrow> (string \<times> response_doc) list \<Rightarrow> system" where
  "ex_init cap resps =
     \<lparr>workerId = ''master_0'', maxConcurrentTasks = cap, runningTasks = 0, activeTasks = [],
      taskTimeout = 300000, dispatching = [], main_queue = [], task_queue = [],
      dimension_queues = [], results_queue = [], partial_hashes = [],
      responses = resps, evaluations = [],
      batches = [(''b1'', \<lparr>b_status = ''pending'', b_progress = None\<rparr>)]\<rparr>"

definition ex_uuid :: "nat \<Rightarrow> string" where
  "ex_uuid n = (if n = 0 then ''t1'' else if n = 1 then ''t2'' else ''t3'')"

text \<open>One record \<open>r1\<close>, uploaded and enqueued as task \<open>t1\<close>, then dispatched.\<close>

definition ex_enqueued :: system where
  "ex_enqueued = snd (enqueueBatch 0 ex_uuid ''b1'' [(''r1'', ex_response ''a1'')]
                        (ex_init 10 [(''r1'', ex_response ''a1'')]))"

definition ex_dispatched :: system where
  "ex_dispatched =
     run 3 [(1000, ''u'', MainLoop), (1001, ''u'', Dispatch ''t1'' None False)] ex_enqueued"

definition ex_result :: "string \<Rightarrow> string \<Rightarrow> rat \<Rightarrow> string option \<Rightarrow> dimension_result" where
  "ex_result taskId dimension score error =
     \<lparr>dr_task_id = taskId, dr_dimension = dimension, dr_response_id = ''r1'',
      dr_score = Some (Num score), dr_details = Some [], dr_error = error\<rparr>"

definition collect_all :: "dimension_result list \<Rightarrow> (int \<times> string \<times> event) list" where
  "collect_all results =
     map (\<lambda>r. (2000, ''u'', WorkerPush r)) results @ map (\<lambda>r. (3000, ''u'', Collect)) results"

text \<open>The mixed-errors scenario: hallucination fails with score 0.\<close>

definition ex_mixed :: "dimension_result list" where
  "ex_mixed =
     [ex_result ''t1'' ''instruction'' (9 / 10) None,
      ex_result ''t1'' ''hallucination'' 0 (Some ''nli timeout''),
      ex_result ''t1'' ''assumption'' 1 None,
      ex_result ''t1'' ''coherence'' (6 / 10) None,
      ex_result ''t1'' ''accuracy'' (8 / 10) None]"

text \<open>Every dimension fails, with score 0 as the dimension worker sends it.\<close>

definition ex_all_failed :: "dimension_result list" where
  "ex_all_failed = map (\<lambda>d. ex_result ''t1'' d 0 (Some ''worker exited'')) DIMENSIONS"

text \<open>A score above 1 with no error, the other dimensions at 1.\<close>

definition ex_out_of_range :: "dimension_result list" where
  "ex_out_of_range =
     ex_result ''t1'' ''instruction'' (3 / 2) None
       # map (\<lambda>d. ex_result ''t1'' d 1 None) (tl DIMENSIONS)"

section \<open>Reading the stored results\<close>

definition stored_score :: "(string \<times> partial_result) list \<Rightarrow> string \<Rightarrow> rat" where
  "stored_score h d = (case map_of h d of None \<Rightarrow> 0 | Some r \<Rightarrow> read_score r)"

text \<open>The configured dimensions that have a stored result, errored or not.\<close>

definition present :: "(string \<times> partial_result) list \<Rightarrow> string list \<Rightarrow> string list" where
  "present h ds = filter (\<lambda>d. map_of h d \<noteq> None) ds"

text \<open>The entries one dimension adds to the list of processing errors.\<close>

definition dimension_errors :: "(string \<times> partial_result) list \<Rightarrow> string \<Rightarrow> string list" where
  "dimension_errors h d =
     (case map_of h d of
        None \<Rightarrow> [d @ '': Missing result'']
      | Some r \<Rightarrow> (case error_or_null (pr_error r) of None \<Rightarrow> [] | Some e \<Rightarrow> [d @ '': '' @ e]))"

text \<open>
  The aggregation as the specification words it, for comparison with \<open>aggregate\<close>:
  S is the set of dimensions that produced a numeric score in [0,1] without an error;
  the final score is 0 when S is empty and otherwise the weighted sum over S divided by
  the sum of the weights of S.
\<close>

definition spec_error_free :: "(string \<times> partial_result) list \<Rightarrow> string list" where
  "spec_error_free h =
     filter (\<lambda>d. case map_of h d of
                   None \<Rightarrow> False
                 | Some r \<Rightarrow>
                     (case pr_score r of
                        None \<Rightarrow> False
                      | Some x \<Rightarrow> pr_error r = None \<and> 0 \<le> x \<and> x \<le> 1)) DIMENSIONS"

definition spec_final_score :: "(string \<times> partial_result) list \<Rightarrow> rat" where
  "spec_final_score h =
     (if spec_error_free h = [] then 0
      else sum_list (map (\<lambda>d. weight_of d * stored_score h d) (spec_error_free h))
             / sum_list (map weight_of (spec_error_free h)))"

text \<open>
  The state in which the finaliser runs for \<open>t1\<close> once the hash holds the given
  results: the task is in flight and all five fields are stored.
\<close>

definition ex_hash :: "dimension_result list \<Rightarrow> (string \<times> partial_result) list" where
  "ex_hash results = map (\<lambda>r. (dr_dimension r, stored_result 3000 r)) results"

definition ex_ready :: "dimension_result list \<Rightarrow> system" where
  "ex_ready results = ex_dispatched\<lparr>partial_hashes := [(''t1'', ex_hash results)]\<rparr>"

definition ex_collected :: "dimension_result list \<Rightarrow> system" where
  "ex_collected results = run 3 (collect_all results) ex_dispatched"

text \<open>
  The sweeper has cleared the in-flight table when the results of \<open>t1\<close> arrive;
  \<open>ex_with_details\<close> puts the record id into the \<open>details\<close> object of each result.
\<close>

definition ex_swept :: system where
  "ex_swept = run 3 [(400000, ''u'', Sweep)] ex_dispatched"

definition ex_with_details :: "dimension_result list \<Rightarrow> dimension_result list" where
  "ex_with_details results = map (\<lambda>r. r\<lparr>dr_details := Some [(''response_id'', ''r1'')]\<rparr>) results"

definition ex_late :: system where
  "ex_late = run 3 (collect_all (butlast (ex_with_details ex_mixed))) ex_swept"

text \<open>
  The record \<open>r1\<close>, failed by the sweeper, then requeued by the operator n times with
  the default retry ceiling, the record failing again after each requeue.
\<close>

fun ex_requeued :: "nat \<Rightarrow> system" where
  "ex_requeued 0 = ex_swept"
| "ex_requeued (Suc n) =
     (case requeueFailedResponse (MAX_RETRIES None) 5000 ''r1'' ''retry'' (ex_requeued n) of
        Inl e \<Rightarrow> ex_requeued n
      | Inr p \<Rightarrow> updateResponseStatus ''r1'' ''failed'' (snd p))"

definition ex_fifth_outcome :: "requeue_outcome option" where
  "ex_fifth_outcome =
     (case requeueFailedResponse (MAX_RETRIES None) 5000 ''r1'' ''retry'' (ex_requeued 4) of
        Inl e \<Rightarrow> None
      | Inr p \<Rightarrow> Some (fst p))"

definition ex_fifth_state :: system where
  "ex_fifth_state =
     (case requeueFailedResponse (MAX_RETRIES None) 5000 ''r1'' ''retry'' (ex_requeued 4) of
        Inl e \<Rightarrow> ex_requeued 4
      | Inr p \<Rightarrow> snd p)"






text \<open>The part of the state that the concurrency cap is about.\<close>

definition dispatch_view :: "system \<Rightarrow> int \<times> main_task list \<times> int" where
  "dispatch_view s = (runningTasks s, dispatching s, maxConcurrentTasks s)"

text \<open>
  Two records, \<open>r1\<close> and \<open>r2\<close>, enqueued as \<open>t1\<close> and \<open>t2\<close> with a concurrency
  cap of 1; the state after the first task is dispatched; the state after the next
  iteration of the dispatch loop and the completion of the dispatch it starts.
\<close>

definition ex_cap1 :: system where
  "ex_cap1 =
     snd (enqueueBatch 0 ex_uuid ''b1'' [(''r1'', ex_response ''a1''), (''r2'', ex_response ''a2'')]
            (ex_init 1 [(''r1'', ex_response ''a1''), (''r2'', ex_response ''a2'')]))"

definition ex_cap1_first :: system where
  "ex_cap1_first = run 3 [(1000, ''u'', MainLoop), (1001, ''u'', Dispatch ''t1'' None False)] ex_cap1"

definition ex_cap1_second :: system where
  "ex_cap1_second =
     run 3 [(1100, ''u'', MainLoop), (1101, ''u'', Dispatch ''t2'' None False)] ex_cap1_first"


text \<open>
  Every dimension carries an error together with a score of 0.5; and a NaN score with no
  error, the other dimensions at 1.
\<close>

definition ex_failed_scored :: "dimension_result list" where
  "ex_failed_scored = map (\<lambda>d. ex_result ''t1'' d (1 / 2) (Some ''worker exited'')) DIMENSIONS"

definition ex_nan :: "dimension_result list" where
  "ex_nan =
     (ex_result ''t1'' ''instruction'' 0 None)\<lparr>dr_score := Some NaN\<rparr>
       # map (\<lambda>d. ex_result ''t1'' d 1 None) (tl DIMENSIONS)"

text \<open>
  The four in-range results of \<open>ex_out_of_range\<close> collected, the task still in flight;
  and a score that parses to the positive infinity, with no error, the other dimensions
  at 1.
\<close>

definition ex_almost :: system where
  "ex_almost = run 3 (collect_all (tl ex_out_of_range)) ex_dispatched"

definition ex_infinite :: "dimension_result list" where
  "ex_infinite =
     (ex_result ''t1'' ''instruction'' 0 None)\<lparr>dr_score := Some PosInf\<rparr>
       # map (\<lambda>d. ex_result ''t1'' d 1 None) (tl DIMENSIONS)"











section \<open>Properties of the aggregation\<close>

lemma weight_of_pos: "0 < weight_of d"
  by (simp add: weight_of_def DEFAULT_WEIGHTS_def)

lemma aggregate_step_finalScore:
  "ag_finalScore (aggregate_step h a d) =
     ag_finalScore a + (if map_of h d = None then 0 else stored_score h d * weight_of d)"
  by (simp add: aggregate_step_def stored_score_def Let_def split: option.splits)

lemma aggregate_step_totalWeight:
  "ag_totalWeight (aggregate_step h a d) =
     ag_totalWeight a + (if map_of h d = None then 0 else weight_of d)"
  by (simp add: aggregate_step_def Let_def split: option.splits)

lemma aggregate_step_allErrors:
  "ag_allErrors (aggregate_step h a d) = ag_allErrors a @ dimension_errors h d"
  by (simp add: aggregate_step_def dimension_errors_def Let_def split: option.splits)

lemma aggregate_step_hasErrors:
  "ag_hasErrors (aggregate_step h a d) = (ag_hasErrors a \<or> dimension_errors h d \<noteq> [])"
  by (simp add: aggregate_step_def dimension_errors_def Let_def split: option.splits)

lemma aggregate_step_scores:
  "ag_scores (aggregate_step h a d) = set_field d (stored_score h d) (ag_scores a)"
  by (simp add: aggregate_step_def stored_score_def Let_def split: option.splits)

lemma foldl_aggregate_finalScore:
  "ag_finalScore (foldl (aggregate_step h) a ds) =
     ag_finalScore a + sum_list (map (\<lambda>d. stored_score h d * weight_of d) (present h ds))"
  by (induction ds arbitrary: a) (simp_all add: aggregate_step_finalScore present_def)

lemma foldl_aggregate_totalWeight:
  "ag_totalWeight (foldl (aggregate_step h) a ds) =
     ag_totalWeight a + sum_list (map weight_of (present h ds))"
  by (induction ds arbitrary: a) (simp_all add: aggregate_step_totalWeight present_def)

lemma foldl_aggregate_allErrors:
  "ag_allErrors (foldl (aggregate_step h) a ds) =
     ag_allErrors a @ concat (map (dimension_errors h) ds)"
  by (induction ds arbitrary: a) (simp_all add: aggregate_step_allErrors)

lemma foldl_aggregate_hasErrors:
  "ag_hasErrors (foldl (aggregate_step h) a ds) =
     (ag_hasErrors a \<or> concat (map (dimension_errors h) ds) \<noteq> [])"
  by (induction ds arbitrary: a) (auto simp: aggregate_step_hasErrors)

lemma set_field_fresh: "k \<notin> fst ` set kvs \<Longrightarrow> set_field k v kvs = kvs @ [(k, v)]"
  by (induction kvs) auto

lemma foldl_aggregate_scores:
  "distinct ds \<Longrightarrow> set ds \<inter> fst ` set (ag_scores a) = {} \<Longrightarrow>
   ag_scores (foldl (aggregate_step h) a ds) = ag_scores a @ map (\<lambda>d. (d, stored_score h d)) ds"
proof (induction ds arbitrary: a)
  case Nil
  then show ?case by simp
next
  case (Cons d ds)
  have fresh: "d \<notin> fst ` set (ag_scores a)"
    using Cons.prems(2) by auto
  have step: "ag_scores (aggregate_step h a d) = ag_scores a @ [(d, stored_score h d)]"
    by (simp add: aggregate_step_scores set_field_fresh [OF fresh])
  have disj: "set ds \<inter> fst ` set (ag_scores (aggregate_step h a d)) = {}"
    using Cons.prems by (auto simp: step)
  show ?case
    using Cons.IH [OF _ disj] Cons.prems(1) by (simp add: step)
qed

lemma sum_weights_nonneg: "0 \<le> sum_list (map weight_of ds)"
  by (induction ds) (simp_all add: less_imp_le [OF weight_of_pos])

lemma sum_weights_pos: "ds \<noteq> [] \<Longrightarrow> 0 < sum_list (map weight_of ds)"
  by (cases ds) (simp_all add: add_pos_nonneg weight_of_pos sum_weights_nonneg)

lemma aggregate_finalScore:
  "ag_finalScore (aggregate h) =
     (if present h DIMENSIONS = [] then 0
      else sum_list (map (\<lambda>d. stored_score h d * weight_of d) (present h DIMENSIONS))
             / sum_list (map weight_of (present h DIMENSIONS)))"
  by (simp add: aggregate_def Let_def foldl_aggregate_finalScore foldl_aggregate_totalWeight
        sum_weights_pos)

lemma aggregate_allErrors:
  "ag_allErrors (aggregate h) = concat (map (dimension_errors h) DIMENSIONS)"
  by (simp add: aggregate_def Let_def foldl_aggregate_allErrors)

lemma aggregate_hasErrors:
  "ag_hasErrors (aggregate h) = (concat (map (dimension_errors h) DIMENSIONS) \<noteq> [])"
  by (simp add: aggregate_def Let_def foldl_aggregate_hasErrors)

lemma aggregate_scores:
  "ag_scores (aggregate h) = map (\<lambda>d. (d, stored_score h d)) DIMENSIONS"
proof -
  have "distinct DIMENSIONS" by (simp add: DIMENSIONS_def)
  then show ?thesis
    by (simp add: aggregate_def Let_def foldl_aggregate_scores)
qed

section \<open>Properties of the finaliser\<close>

lemma evaluations_updateResponseStatus [simp]:
  "evaluations (updateResponseStatus r st s) = evaluations s"
  by (simp add: updateResponseStatus_def)

lemma evaluations_updateBatchStatus [simp]:
  "evaluations (updateBatchStatus b st p s) = evaluations s"
  by (simp add: updateBatchStatus_def)

lemma evaluations_updateBatchProgress [simp]:
  "evaluations (updateBatchProgress b s) = evaluations s"
  by (simp add: updateBatchProgress_def Let_def)

lemma evaluations_deletePartialResults [simp]:
  "evaluations (deletePartialResults t s) = evaluations s"
  by (simp add: deletePartialResults_def)

lemma responses_updateBatchStatus [simp]:
  "responses (updateBatchStatus b st p s) = responses s"
  by (simp add: updateBatchStatus_def)

lemma responses_updateBatchProgress [simp]:
  "responses (updateBatchProgress b s) = responses s"
  by (simp add: updateBatchProgress_def Let_def)

lemma responses_deletePartialResults [simp]:
  "responses (deletePartialResults t s) = responses s"
  by (simp add: deletePartialResults_def)

lemma map_of_set_status:
  "map_of (map (\<lambda>(i, r). if i = k then (i, r\<lparr>r_status := st\<rparr>) else (i, r)) rs) k' =
     (if k' = k then map_option (\<lambda>r. r\<lparr>r_status := st\<rparr>) (map_of rs k') else map_of rs k')"
  by (induction rs) auto

lemma getResponseById_updateResponseStatus:
  "getResponseById k' (updateResponseStatus k st s) =
     (if k' = k then map_option (\<lambda>r. r\<lparr>r_status := st\<rparr>) (getResponseById k' s)
      else getResponseById k' s)"
  by (simp add: getResponseById_def updateResponseStatus_def map_of_set_status)

lemma getResponseById_cong:
  "responses s' = responses s \<Longrightarrow> getResponseById k s' = getResponseById k s"
  by (simp add: getResponseById_def)

lemma ev_response_id_evaluation_of [simp]:
  "ev_response_id (evaluation_of now taskId taskInfo h s) = resolve_response_id taskInfo h"
  by (simp add: evaluation_of_def Let_def)

lemma ev_final_score_evaluation_of [simp]:
  "ev_final_score (evaluation_of now taskId taskInfo h s) = ag_finalScore (aggregate h)"
  by (simp add: evaluation_of_def Let_def)

lemma ev_scores_evaluation_of [simp]:
  "ev_scores (evaluation_of now taskId taskInfo h s) = ag_scores (aggregate h)"
  by (simp add: evaluation_of_def Let_def)

lemma ev_processing_errors_evaluation_of [simp]:
  "ev_processing_errors (evaluation_of now taskId taskInfo h s) =
     concat (map (dimension_errors h) DIMENSIONS)"
  by (simp add: evaluation_of_def Let_def aggregate_hasErrors aggregate_allErrors)

lemma finalize_success:
  assumes "length DIMENSIONS \<le> length (getPartialResults taskId s)"
      and "truthy (resolve_response_id taskInfo (getPartialResults taskId s))"
      and "resolve_response_id taskInfo (getPartialResults taskId s)
             \<notin> set (map ev_response_id (evaluations s))"
  shows "finalizeTaskWithInfo now taskId taskInfo s =
     (let ev = evaluation_of now taskId taskInfo (getPartialResults taskId s) s;
          s1 = s\<lparr>evaluations := evaluations s @ [ev]\<rparr>;
          s2 = updateResponseStatus (ev_response_id ev) ''completed'' s1;
          s3 = updateBatchProgress (ev_batch_id ev) s2
      in deletePartialResults taskId (s3\<lparr>activeTasks := delete_field taskId (activeTasks s3)\<rparr>))"
  using assms unfolding finalizeTaskWithInfo_def insertEvaluation_def Let_def
  by simp

lemma finalize_success_evaluations:
  assumes "length DIMENSIONS \<le> length (getPartialResults taskId s)"
      and "truthy (resolve_response_id taskInfo (getPartialResults taskId s))"
      and "resolve_response_id taskInfo (getPartialResults taskId s)
             \<notin> set (map ev_response_id (evaluations s))"
  shows "evaluations (finalizeTaskWithInfo now taskId taskInfo s) =
           evaluations s @ [evaluation_of now taskId taskInfo (getPartialResults taskId s) s]"
  by (simp add: finalize_success [OF assms] Let_def)

lemma finalize_success_status:
  assumes "length DIMENSIONS \<le> length (getPartialResults taskId s)"
      and "truthy (resolve_response_id taskInfo (getPartialResults taskId s))"
      and "resolve_response_id taskInfo (getPartialResults taskId s)
             \<notin> set (map ev_response_id (evaluations s))"
  shows "getResponseById (resolve_response_id taskInfo (getPartialResults taskId s))
           (finalizeTaskWithInfo now taskId taskInfo s) =
         map_option (\<lambda>r. r\<lparr>r_status := ''completed''\<rparr>)
           (getResponseById (resolve_response_id taskInfo (getPartialResults taskId s)) s)"
proof -
  let ?rid = "resolve_response_id taskInfo (getPartialResults taskId s)"
  let ?ev = "evaluation_of now taskId taskInfo (getPartialResults taskId s) s"
  have "responses (finalizeTaskWithInfo now taskId taskInfo s) =
          responses (updateResponseStatus ?rid ''completed'' (s\<lparr>evaluations := evaluations s @ [?ev]\<rparr>))"
    by (simp add: finalize_success [OF assms] Let_def)
  then have "getResponseById ?rid (finalizeTaskWithInfo now taskId taskInfo s) =
          getResponseById ?rid (updateResponseStatus ?rid ''completed'' (s\<lparr>evaluations := evaluations s @ [?ev]\<rparr>))"
    by (rule getResponseById_cong)
  also have "\<dots> = map_option (\<lambda>r. r\<lparr>r_status := ''completed''\<rparr>)
                     (getResponseById ?rid (s\<lparr>evaluations := evaluations s @ [?ev]\<rparr>))"
    by (simp add: getResponseById_updateResponseStatus)
  also have "getResponseById ?rid (s\<lparr>evaluations := evaluations s @ [?ev]\<rparr>) = getResponseById ?rid s"
    by (simp add: getResponseById_def)
  finally show ?thesis .
qed

section \<open>Claims about the final score\<close>

text \<open>
  C1, as stated, fails: in the mixed-errors scenario the errored hallucination result
  keeps its weight 0.25 in the denominator, so the Evaluation holds 0.63, where the
  renormalisation over the error-free dimensions that the claim describes gives 0.84.
\<close>

theorem C1_counterexample:
  "ev_final_score (last (evaluations (ex_collected ex_mixed))) = 63 / 100
   \<and> spec_final_score (ex_hash ex_mixed) = 84 / 100"
  by code_simp

text \<open>
  C1, amended: when the finaliser writes the Evaluation, its final score is the weighted
  sum of the stored scores over the configured dimensions that have a stored result,
  divided by the sum of the weights of those dimensions; an errored result keeps its
  weight in the denominator and only a dimension with no stored result is left out. The
  scores map holds the stored score of each dimension, 0 for a missing one.
\<close>

theorem finalizeTaskWithInfo_final_score:
  assumes "length DIMENSIONS \<le> length (getPartialResults taskId s)"
      and "truthy (resolve_response_id taskInfo (getPartialResults taskId s))"
      and "resolve_response_id taskInfo (getPartialResults taskId s)
             \<notin> set (map ev_response_id (evaluations s))"
  shows "length (evaluations (finalizeTaskWithInfo now taskId taskInfo s)) = length (evaluations s) + 1
     \<and> ev_final_score (last (evaluations (finalizeTaskWithInfo now taskId taskInfo s))) =
         (if present (getPartialResults taskId s) DIMENSIONS = [] then 0
          else sum_list (map (\<lambda>d. stored_score (getPartialResults taskId s) d * weight_of d)
                           (present (getPartialResults taskId s) DIMENSIONS))
                 / sum_list (map weight_of (present (getPartialResults taskId s) DIMENSIONS)))
     \<and> ev_scores (last (evaluations (finalizeTaskWithInfo now taskId taskInfo s))) =
         map (\<lambda>d. (d, stored_score (getPartialResults taskId s) d)) DIMENSIONS"
  by (simp add: finalize_success_evaluations [OF assms] aggregate_finalScore aggregate_scores)

theorem finalizeTaskWithInfo_final_score_witness:
  "length DIMENSIONS \<le> length (getPartialResults ''t1'' (ex_ready ex_mixed))
   \<and> truthy (resolve_response_id (map_of (activeTasks ex_dispatched) ''t1'')
               (getPartialResults ''t1'' (ex_ready ex_mixed)))
   \<and> resolve_response_id (map_of (activeTasks ex_dispatched) ''t1'')
               (getPartialResults ''t1'' (ex_ready ex_mixed))
         \<notin> set (map ev_response_id (evaluations (ex_ready ex_mixed)))
   \<and> length (evaluations (finalizeTaskWithInfo 3000 ''t1'' (map_of (activeTasks ex_dispatched) ''t1'')
                 (ex_ready ex_mixed))) = 1
   \<and> ev_final_score (last (evaluations (finalizeTaskWithInfo 3000 ''t1''
                 (map_of (activeTasks ex_dispatched) ''t1'') (ex_ready ex_mixed)))) = 63 / 100"
proof -
  have h1: "length DIMENSIONS \<le> length (getPartialResults ''t1'' (ex_ready ex_mixed))"
    by code_simp
  have h2: "truthy (resolve_response_id (map_of (activeTasks ex_dispatched) ''t1'')
               (getPartialResults ''t1'' (ex_ready ex_mixed)))"
    by code_simp
  have h3: "resolve_response_id (map_of (activeTasks ex_dispatched) ''t1'')
               (getPartialResults ''t1'' (ex_ready ex_mixed))
         \<notin> set (map ev_response_id (evaluations (ex_ready ex_mixed)))"
    by code_simp
  have e: "evaluations (ex_ready ex_mixed) = []"
    by code_simp
  have v: "(if present (getPartialResults ''t1'' (ex_ready ex_mixed)) DIMENSIONS = [] then 0
          else sum_list (map (\<lambda>d. stored_score (getPartialResults ''t1'' (ex_ready ex_mixed)) d * weight_of d)
                           (present (getPartialResults ''t1'' (ex_ready ex_mixed)) DIMENSIONS))
                 / sum_list (map weight_of (present (getPartialResults ''t1'' (ex_ready ex_mixed)) DIMENSIONS)))
           = 63 / 100"
    by code_simp
  show ?thesis
    using h1 h2 h3 finalizeTaskWithInfo_final_score [OF h1 h2 h3, of 3000]
    by (simp only: e v list.size) simp
qed

text \<open>
  C2, as stated, fails on the status: when all five results carry an error, the
  finaliser still writes the Evaluation (final score 0, five processing errors) and
  marks the record \<open>completed\<close>, not \<open>failed\<close>. The final score is 0 there because
  the errored results carry score 0: when each carries 0.5 next to its error, the final
  score is 0.5.
\<close>

theorem C2_counterexample:
  "map_option r_status (getResponseById ''r1'' (ex_collected ex_all_failed)) = Some ''completed''
   \<and> ev_final_score (last (evaluations (ex_collected ex_all_failed))) = 0
   \<and> length (ev_processing_errors (last (evaluations (ex_collected ex_all_failed)))) = 5
   \<and> ev_final_score (last (evaluations (ex_collected ex_failed_scored))) = 1 / 2
   \<and> length (ev_processing_errors (last (evaluations (ex_collected ex_failed_scored)))) = 5"
  by code_simp

text \<open>
  C2, amended: when each of the five dimensions has a stored result with a non-empty
  error and score 0 (what a failing dimension worker sends), the finaliser writes an
  Evaluation with final score 0 and five processing errors, and sets the record's status
  to \<open>completed\<close>.
\<close>

theorem finalizeTaskWithInfo_all_errored:
  assumes "length DIMENSIONS \<le> length (getPartialResults taskId s)"
      and "truthy (resolve_response_id taskInfo (getPartialResults taskId s))"
      and "resolve_response_id taskInfo (getPartialResults taskId s)
             \<notin> set (map ev_response_id (evaluations s))"
      and "list_all (\<lambda>d. case map_of (getPartialResults taskId s) d of
                            None \<Rightarrow> False
                          | Some r \<Rightarrow> read_score r = 0 \<and> error_or_null (pr_error r) \<noteq> None) DIMENSIONS"
      and "getResponseById (resolve_response_id taskInfo (getPartialResults taskId s)) s = Some r"
  shows "ev_final_score (last (evaluations (finalizeTaskWithInfo now taskId taskInfo s))) = 0
     \<and> length (ev_processing_errors (last (evaluations (finalizeTaskWithInfo now taskId taskInfo s)))) = 5
     \<and> map_option r_status
          (getResponseById (resolve_response_id taskInfo (getPartialResults taskId s))
             (finalizeTaskWithInfo now taskId taskInfo s)) = Some ''completed''"
proof -
  let ?h = "getPartialResults taskId s"
  have each: "\<And>d. d \<in> set DIMENSIONS \<Longrightarrow>
                stored_score ?h d = 0 \<and> length (dimension_errors ?h d) = 1"
    using assms(4)
    by (auto simp: list_all_iff stored_score_def dimension_errors_def split: option.splits)
  have score: "ag_finalScore (aggregate ?h) = 0"
    using each by (simp add: aggregate_finalScore present_def DIMENSIONS_def)
  have errs: "length (concat (map (dimension_errors ?h) DIMENSIONS)) = 5"
    using each by (simp add: DIMENSIONS_def)
  have st: "map_option r_status
          (getResponseById (resolve_response_id taskInfo ?h)
             (finalizeTaskWithInfo now taskId taskInfo s)) = Some ''completed''"
    by (simp add: finalize_success_status [OF assms(1-3)] assms(5))
  show ?thesis
    using score errs st by (simp add: finalize_success_evaluations [OF assms(1-3)])
qed

theorem finalizeTaskWithInfo_all_errored_witness:
  "length DIMENSIONS \<le> length (getPartialResults ''t1'' (ex_ready ex_all_failed))
   \<and> truthy (resolve_response_id (map_of (activeTasks ex_dispatched) ''t1'')
               (getPartialResults ''t1'' (ex_ready ex_all_failed)))
   \<and> resolve_response_id (map_of (activeTasks ex_dispatched) ''t1'')
               (getPartialResults ''t1'' (ex_ready ex_all_failed))
         \<notin> set (map ev_response_id (evaluations (ex_ready ex_all_failed)))
   \<and> list_all (\<lambda>d. case map_of (getPartialResults ''t1'' (ex_ready ex_all_failed)) d of
                            None \<Rightarrow> False
                          | Some r \<Rightarrow> read_score r = 0 \<and> error_or_null (pr_error r) \<noteq> None) DIMENSIONS
   \<and> getResponseById (resolve_response_id (map_of (activeTasks ex_dispatched) ''t1'')
               (getPartialResults ''t1'' (ex_ready ex_all_failed))) (ex_ready ex_all_failed)
       = Some ((ex_response ''a1'')\<lparr>r_status := ''processing''\<rparr>)
   \<and> map_option r_status
          (getResponseById (resolve_response_id (map_of (activeTasks ex_dispatched) ''t1'')
               (getPartialResults ''t1'' (ex_ready ex_all_failed)))
             (finalizeTaskWithInfo 3000 ''t1'' (map_of (activeTasks ex_dispatched) ''t1'')
                (ex_ready ex_all_failed))) = Some ''completed''"
proof -
  have h1: "length DIMENSIONS \<le> length (getPartialResults ''t1'' (ex_ready ex_all_failed))"
    by code_simp
  have h2: "truthy (resolve_response_id (map_of (activeTasks ex_dispatched) ''t1'')
               (getPartialResults ''t1'' (ex_ready ex_all_failed)))"
    by code_simp
  have h3: "resolve_response_id (map_of (activeTasks ex_dispatched) ''t1'')
               (getPartialResults ''t1'' (ex_ready ex_all_failed))
         \<notin> set (map ev_response_id (evaluations (ex_ready ex_all_failed)))"
    by code_simp
  have h4: "list_all (\<lambda>d. case map_of (getPartialResults ''t1'' (ex_ready ex_all_failed)) d of
                            None \<Rightarrow> False
                          | Some r \<Rightarrow> read_score r = 0 \<and> error_or_null (pr_error r) \<noteq> None) DIMENSIONS"
    by code_simp
  have h5: "getResponseById (resolve_response_id (map_of (activeTasks ex_dispatched) ''t1'')
               (getPartialResults ''t1'' (ex_ready ex_all_failed))) (ex_ready ex_all_failed)
       = Some ((ex_response ''a1'')\<lparr>r_status := ''processing''\<rparr>)"
    by code_simp
  show ?thesis
    using h1 h2 h3 h4 h5 finalizeTaskWithInfo_all_errored [OF h1 h2 h3 h4 h5, of 3000]
    by blast
qed

section \<open>Claims about the collector\<close>

lemma map_of_set_field:
  "map_of (set_field k v kvs) k' = (if k' = k then Some v else map_of kvs k')"
  by (induction kvs) auto

lemma getPartialResults_setPartialResult:
  "getPartialResults t (snd (setPartialResult t d v s)) = set_field d v (getPartialResults t s)"
  by (simp add: setPartialResult_def getPartialResults_def Let_def map_of_set_field)

lemma fst_setPartialResult:
  "fst (setPartialResult t d v s) = length (set_field d v (getPartialResults t s))"
  by (simp add: setPartialResult_def Let_def)

lemma map_of_keyed:
  "d \<in> set ds \<Longrightarrow> map_of (map (\<lambda>d. (d, f d)) ds) d = Some (f d)"
  by (induction ds) auto

lemma setPartialResult_fields:
  "activeTasks (snd (setPartialResult t d v s)) = activeTasks s"
  "evaluations (snd (setPartialResult t d v s)) = evaluations s"
  "responses (snd (setPartialResult t d v s)) = responses s"
  by (simp_all add: setPartialResult_def Let_def)

lemma known_task_step:
  assumes "map_of (activeTasks s) (dr_task_id r) = Some taskInfo"
  shows "processDimensionResult now r s =
     (let s1 = snd (setPartialResult (dr_task_id r) (dr_dimension r) (stored_result now r) s);
          ti = taskInfo\<lparr>ti_completedDimensions :=
                  List.insert (dr_dimension r) (ti_completedDimensions taskInfo)\<rparr>;
          s2 = s1\<lparr>activeTasks := set_field (dr_task_id r) ti (activeTasks s1)\<rparr>
      in if length DIMENSIONS \<le> length (getPartialResults (dr_task_id r) s1)
         then finalizeTaskWithInfo now (dr_task_id r) (Some ti) s2 else s2)"
  using assms
  by (simp add: processDimensionResult_def case_prod_beta setPartialResult_fields
        fst_setPartialResult getPartialResults_setPartialResult finalizeTask_def
        map_of_set_field Let_def)

lemma getPartialResults_activeTasks [simp]:
  "getPartialResults t (s\<lparr>activeTasks := a\<rparr>) = getPartialResults t s"
  by (simp add: getPartialResults_def)

text \<open>
  C9, as stated, fails: a result with score 1.5 and no error is stored as 1.5, no error
  is recorded for it, and the score enters the aggregation, which here gives a final
  score of 1.1. A NaN score with no error is stored as 0, again with no error recorded,
  and the dimension keeps its weight: the final score is 0.8, not the 1 that the other
  four dimensions would give alone. The same holds of a score that parses to an
  infinity, which is stored as \<open>null\<close> and read as 0.
\<close>

theorem C9_counterexample:
  "ev_scores (last (evaluations (ex_collected ex_out_of_range))) =
     [(''instruction'', 3 / 2), (''hallucination'', 1), (''assumption'', 1),
      (''coherence'', 1), (''accuracy'', 1)]
   \<and> ev_processing_errors (last (evaluations (ex_collected ex_out_of_range))) = []
   \<and> ev_final_score (last (evaluations (ex_collected ex_out_of_range))) = 11 / 10
   \<and> ev_processing_errors (last (evaluations (ex_collected ex_nan))) = []
   \<and> ev_final_score (last (evaluations (ex_collected ex_nan))) = 8 / 10
   \<and> ev_processing_errors (last (evaluations (ex_collected ex_infinite))) = []
   \<and> ev_final_score (last (evaluations (ex_collected ex_infinite))) = 8 / 10"
  by code_simp

text \<open>
  C9, amended: the collector makes no range check. Let a result of a configured
  dimension carry no error (absent, null or empty), whatever its score, for a task in
  flight whose record has no Evaluation yet, and let \<open>h\<close> be the hash with the result
  written into it. The score the finaliser reads for that dimension is the score itself
  when it is a finite number (also outside [0,1]) and 0 when it is NaN, an infinity or
  absent, and no processing error comes from that dimension. While the hash holds fewer
  than five fields the collector leaves it as \<open>h\<close> and writes no Evaluation. Otherwise it
  writes the Evaluation: its scores map holds that score for the dimension, its
  processing errors are those of the stored results, and its final score is the weighted
  sum over the dimensions with a stored result divided by the sum of their weights, so
  the dimension keeps its weight and the score, in range or not, enters the aggregation.
\<close>

theorem processDimensionResult_no_range_check:
  assumes "dr_dimension r \<in> set DIMENSIONS"
      and "dr_error r = None \<or> dr_error r = Some []"
      and "map_of (activeTasks s) (dr_task_id r) = Some taskInfo"
      and "truthy (mt_response_id (ti_mainTask taskInfo))"
      and "mt_response_id (ti_mainTask taskInfo) \<notin> set (map ev_response_id (evaluations s))"
      and "h = set_field (dr_dimension r) (stored_result now r) (getPartialResults (dr_task_id r) s)"
      and "s' = processDimensionResult now r s"
  shows "stored_score h (dr_dimension r) = (case dr_score r of Some (Num x) \<Rightarrow> x | _ \<Rightarrow> 0)
     \<and> dimension_errors h (dr_dimension r) = []
     \<and> (if length h < length DIMENSIONS
         then getPartialResults (dr_task_id r) s' = h \<and> evaluations s' = evaluations s
         else length (evaluations s') = length (evaluations s) + 1
            \<and> map_of (ev_scores (last (evaluations s'))) (dr_dimension r)
                = Some (case dr_score r of Some (Num x) \<Rightarrow> x | _ \<Rightarrow> 0)
            \<and> ev_processing_errors (last (evaluations s'))
                = concat (map (dimension_errors h) DIMENSIONS)
            \<and> ev_final_score (last (evaluations s'))
                = sum_list (map (\<lambda>d. stored_score h d * weight_of d) (present h DIMENSIONS))
                    / sum_list (map weight_of (present h DIMENSIONS)))"
proof -
  let ?t = "dr_task_id r" and ?d = "dr_dimension r"
  let ?s1 = "snd (setPartialResult ?t ?d (stored_result now r) s)"
  let ?ti = "taskInfo\<lparr>ti_completedDimensions := List.insert ?d (ti_completedDimensions taskInfo)\<rparr>"
  let ?s2 = "?s1\<lparr>activeTasks := set_field ?t ?ti (activeTasks ?s1)\<rparr>"
  have h1: "getPartialResults ?t ?s1 = h"
    by (simp add: assms(6) getPartialResults_setPartialResult)
  have h2: "getPartialResults ?t ?s2 = h"
    by (simp add: h1)
  have look: "map_of h ?d = Some (stored_result now r)"
    by (simp add: assms(6) map_of_set_field)
  have "stored_score h ?d = read_score (stored_result now r)"
    unfolding stored_score_def look by simp
  also have "\<dots> = (case dr_score r of Some (Num x) \<Rightarrow> x | _ \<Rightarrow> 0)"
    by (simp add: read_score_def stored_result_def score_or_zero_def json_number_def
          split: option.splits jsnum.splits)
  finally have sc: "stored_score h ?d = (case dr_score r of Some (Num x) \<Rightarrow> x | _ \<Rightarrow> 0)" .
  have er: "dimension_errors h ?d = []"
  proof -
    have "error_or_null (pr_error (stored_result now r)) = None"
      using assms(2) by (auto simp: stored_result_def error_or_null_def truthy_def)
    then show ?thesis
      unfolding dimension_errors_def look by simp
  qed
  have step: "s' = (if length DIMENSIONS \<le> length h
                    then finalizeTaskWithInfo now ?t (Some ?ti) ?s2 else ?s2)"
    unfolding assms(7) known_task_step [OF assms(3)] Let_def h1 ..
  show ?thesis
  proof (cases "length h < length DIMENSIONS")
    case True
    then have eq: "s' = ?s2"
      using step by simp
    have g: "getPartialResults ?t s' = h"
      unfolding eq by (rule h2)
    have "evaluations s' = evaluations s"
      unfolding eq by (simp add: setPartialResult_fields)
    with True sc er g show ?thesis by simp
  next
    case False
    then have s': "s' = finalizeTaskWithInfo now ?t (Some ?ti) ?s2"
      using step by simp
    have rid: "resolve_response_id (Some ?ti) h = mt_response_id (ti_mainTask taskInfo)"
      using assms(4) by (simp add: resolve_response_id_def info_response_id_def)
    have a1: "length DIMENSIONS \<le> length (getPartialResults ?t ?s2)"
      unfolding h2 using False by simp
    have a2: "truthy (resolve_response_id (Some ?ti) (getPartialResults ?t ?s2))"
      unfolding h2 rid by (rule assms(4))
    have a3: "resolve_response_id (Some ?ti) (getPartialResults ?t ?s2)
                \<notin> set (map ev_response_id (evaluations ?s2))"
      unfolding h2 rid using assms(5) by (simp add: setPartialResult_fields)
    have ev: "evaluations s' = evaluations s @ [evaluation_of now ?t (Some ?ti) h ?s2]"
      unfolding s' finalize_success_evaluations [OF a1 a2 a3] h2
      by (simp add: setPartialResult_fields)
    have pr: "?d \<in> set (present h DIMENSIONS)"
      using assms(1) by (simp add: present_def look)
    then have ne: "present h DIMENSIONS \<noteq> []"
      by auto
    have scores: "map_of (ag_scores (aggregate h)) ?d = Some (stored_score h ?d)"
      unfolding aggregate_scores using assms(1) by (rule map_of_keyed)
    show ?thesis
      using False sc er scores by (simp add: ev aggregate_finalScore ne)
  qed
qed

theorem processDimensionResult_no_range_check_witness:
  "dr_dimension (hd ex_out_of_range) \<in> set DIMENSIONS
   \<and> (dr_error (hd ex_out_of_range) = None \<or> dr_error (hd ex_out_of_range) = Some [])
   \<and> map_of (activeTasks ex_almost) (dr_task_id (hd ex_out_of_range))
       = Some (snd (hd (activeTasks ex_almost)))
   \<and> truthy (mt_response_id (ti_mainTask (snd (hd (activeTasks ex_almost)))))
   \<and> mt_response_id (ti_mainTask (snd (hd (activeTasks ex_almost))))
       \<notin> set (map ev_response_id (evaluations ex_almost))
   \<and> length (evaluations (processDimensionResult 3000 (hd ex_out_of_range) ex_almost)) = 1
   \<and> map_of (ev_scores (last (evaluations (processDimensionResult 3000 (hd ex_out_of_range)
         ex_almost)))) ''instruction'' = Some (3 / 2)
   \<and> ev_final_score (last (evaluations (processDimensionResult 3000 (hd ex_out_of_range)
         ex_almost))) = 11 / 10"
proof -
  let ?r = "hd ex_out_of_range"
  let ?h = "set_field (dr_dimension ?r) (stored_result 3000 ?r)
              (getPartialResults (dr_task_id ?r) ex_almost)"
  have h1: "dr_dimension ?r \<in> set DIMENSIONS" by code_simp
  have h2: "dr_error ?r = None \<or> dr_error ?r = Some []" by code_simp
  have h3: "map_of (activeTasks ex_almost) (dr_task_id ?r) = Some (snd (hd (activeTasks ex_almost)))"
    by code_simp
  have h4: "truthy (mt_response_id (ti_mainTask (snd (hd (activeTasks ex_almost)))))"
    by code_simp
  have h5: "mt_response_id (ti_mainTask (snd (hd (activeTasks ex_almost))))
       \<notin> set (map ev_response_id (evaluations ex_almost))"
    by code_simp
  have full: "\<not> length ?h < length DIMENSIONS" by code_simp
  have e: "evaluations ex_almost = []" by code_simp
  have d: "dr_dimension ?r = ''instruction''" by code_simp
  have v: "(case dr_score ?r of Some (Num x) \<Rightarrow> x | _ \<Rightarrow> 0) = 3 / 2" by code_simp
  have f: "sum_list (map (\<lambda>d. stored_score ?h d * weight_of d) (present ?h DIMENSIONS))
             / sum_list (map weight_of (present ?h DIMENSIONS)) = 11 / 10"
    by code_simp
  note c = processDimensionResult_no_range_check [OF h1 h2 h3 h4 h5 refl refl, of 3000]
  from c full e have l: "length (evaluations (processDimensionResult 3000 ?r ex_almost)) = 1"
    by simp
  from c full have m: "map_of (ev_scores (last (evaluations (processDimensionResult 3000 ?r
         ex_almost)))) ''instruction'' = Some (3 / 2)"
    by (simp add: d v)
  from c full have g: "ev_final_score (last (evaluations (processDimensionResult 3000 ?r
         ex_almost))) = 11 / 10"
    by (simp add: f)
  show ?thesis
    using h1 h2 h3 h4 h5 l m g by blast
qed



lemma activeTasks_deletePartialResults [simp]:
  "activeTasks (deletePartialResults t s) = activeTasks s"
  by (simp add: deletePartialResults_def)

lemma finalize_conflict:
  assumes "length DIMENSIONS \<le> length (getPartialResults taskId s)"
      and "truthy (resolve_response_id taskInfo (getPartialResults taskId s))"
      and "resolve_response_id taskInfo (getPartialResults taskId s)
             \<in> set (map ev_response_id (evaluations s))"
  shows "finalizeTaskWithInfo now taskId taskInfo s =
     (let s2 = (if truthy (info_response_id taskInfo)
                then updateResponseStatus (info_response_id taskInfo) ''failed'' s else s)
      in deletePartialResults taskId (s2\<lparr>activeTasks := delete_field taskId (activeTasks s2)\<rparr>))"
  using assms unfolding finalizeTaskWithInfo_def insertEvaluation_def Let_def
  by simp

text \<open>
  C7, as stated, fails: the collector stores the score, the details, the error and a
  timestamp of a result, not the record id of its envelope. When the in-flight table
  no longer has the task and the \<open>details\<close> objects carry no \<open>response_id\<close>, the five
  results (each with \<open>response_id = r1\<close> in its envelope) fill the hash and no
  Evaluation is written.
\<close>

theorem C7_counterexample:
  "map_of (activeTasks ex_swept) ''t1'' = None
   \<and> map dr_response_id ex_mixed = [''r1'', ''r1'', ''r1'', ''r1'', ''r1'']
   \<and> length (getPartialResults ''t1'' (run 3 (collect_all ex_mixed) ex_swept)) = 5
   \<and> evaluations (run 3 (collect_all ex_mixed) ex_swept) = []"
  by code_simp

text \<open>
  C7, amended: when a result arrives for a task id absent from the in-flight table and
  the hash then holds at least five fields, the collector attempts the finalisation; the
  record id is taken from the first stored result whose \<open>details\<close> object carries a
  non-empty \<open>response_id\<close>. An Evaluation for that record id is written when there is
  one and the record has no Evaluation yet; otherwise no Evaluation is written.
\<close>

theorem processDimensionResult_unknown_task:
  assumes "map_of (activeTasks s) (dr_task_id r) = None"
      and "length DIMENSIONS \<le>
             length (set_field (dr_dimension r) (stored_result now r) (getPartialResults (dr_task_id r) s))"
  shows "map ev_response_id (evaluations (processDimensionResult now r s)) =
     (if truthy (first_details_response_id
                   (set_field (dr_dimension r) (stored_result now r) (getPartialResults (dr_task_id r) s)))
         \<and> first_details_response_id
                   (set_field (dr_dimension r) (stored_result now r) (getPartialResults (dr_task_id r) s))
               \<notin> set (map ev_response_id (evaluations s))
      then map ev_response_id (evaluations s) @
             [first_details_response_id
                (set_field (dr_dimension r) (stored_result now r) (getPartialResults (dr_task_id r) s))]
      else map ev_response_id (evaluations s))"
proof -
  let ?t = "dr_task_id r"
  let ?h = "set_field (dr_dimension r) (stored_result now r) (getPartialResults ?t s)"
  let ?s1 = "snd (setPartialResult ?t (dr_dimension r) (stored_result now r) s)"
  have h: "getPartialResults ?t ?s1 = ?h"
    by (rule getPartialResults_setPartialResult)
  have n: "fst (setPartialResult ?t (dr_dimension r) (stored_result now r) s) = length ?h"
    by (rule fst_setPartialResult)
  have a: "activeTasks ?s1 = activeTasks s" and e: "evaluations ?s1 = evaluations s"
    by (simp_all add: setPartialResult_def Let_def)
  have "length DIMENSIONS = 5"
    by (simp add: DIMENSIONS_def)
  with assms(2) have ne: "length ?h \<noteq> 0"
    by linarith
  have "processDimensionResult now r s = finalizeTaskById now ?t ?s1"
    using assms by (simp add: processDimensionResult_def case_prod_beta a n)
  then have p: "processDimensionResult now r s = finalizeTaskWithInfo now ?t None ?s1"
    using ne by (simp add: finalizeTaskById_def h)
  have rr: "resolve_response_id None ?h = first_details_response_id ?h"
    by (simp add: resolve_response_id_def info_response_id_def truthy_def)
  have len: "length DIMENSIONS \<le> length (getPartialResults ?t ?s1)"
    using assms(2) by (simp add: h)
  show ?thesis
  proof (cases "truthy (first_details_response_id ?h)")
    case False
    then have "finalizeTaskWithInfo now ?t None ?s1 = ?s1"
      by (simp add: finalizeTaskWithInfo_def Let_def h rr)
    with False show ?thesis by (simp add: p e)
  next
    case True
    then have tr: "truthy (resolve_response_id None (getPartialResults ?t ?s1))"
      by (simp add: h rr)
    show ?thesis
    proof (cases "first_details_response_id ?h \<in> set (map ev_response_id (evaluations s))")
      case inside: True
      then have "resolve_response_id None (getPartialResults ?t ?s1)
                   \<in> set (map ev_response_id (evaluations ?s1))"
        by (simp add: h rr e)
      from finalize_conflict [OF len tr this, of now]
      have "evaluations (finalizeTaskWithInfo now ?t None ?s1) = evaluations ?s1"
        by (simp add: Let_def info_response_id_def truthy_def)
      with inside show ?thesis by (simp add: p e)
    next
      case outside: False
      then have "resolve_response_id None (getPartialResults ?t ?s1)
                   \<notin> set (map ev_response_id (evaluations ?s1))"
        by (simp add: h rr e)
      from finalize_success_evaluations [OF len tr this, of now]
      have "map ev_response_id (evaluations (finalizeTaskWithInfo now ?t None ?s1)) =
              map ev_response_id (evaluations ?s1) @ [first_details_response_id ?h]"
        by (simp add: h rr)
      with True outside show ?thesis by (simp add: p e)
    qed
  qed
qed

theorem processDimensionResult_unknown_task_witness:
  "map_of (activeTasks ex_late) (dr_task_id (last (ex_with_details ex_mixed))) = None
   \<and> length DIMENSIONS \<le>
        length (set_field (dr_dimension (last (ex_with_details ex_mixed)))
                  (stored_result 3000 (last (ex_with_details ex_mixed)))
                  (getPartialResults (dr_task_id (last (ex_with_details ex_mixed))) ex_late))
   \<and> map ev_response_id
        (evaluations (processDimensionResult 3000 (last (ex_with_details ex_mixed)) ex_late)) = [''r1'']"
proof -
  have h1: "map_of (activeTasks ex_late) (dr_task_id (last (ex_with_details ex_mixed))) = None"
    by code_simp
  have h2: "length DIMENSIONS \<le>
        length (set_field (dr_dimension (last (ex_with_details ex_mixed)))
                  (stored_result 3000 (last (ex_with_details ex_mixed)))
                  (getPartialResults (dr_task_id (last (ex_with_details ex_mixed))) ex_late))"
    by code_simp
  have v: "first_details_response_id
             (set_field (dr_dimension (last (ex_with_details ex_mixed)))
                  (stored_result 3000 (last (ex_with_details ex_mixed)))
                  (getPartialResults (dr_task_id (last (ex_with_details ex_mixed))) ex_late)) = ''r1''"
    by code_simp
  have e: "evaluations ex_late = []"
    by code_simp
  show ?thesis
    using h1 h2 processDimensionResult_unknown_task [OF h1 h2]
    by (simp add: v e truthy_def)
qed

section \<open>Claims about the batch progress\<close>

lemma count_of_progress_add:
  "count_of (progress_add p g) k =
     (if k = ''total''
      then (if fst g = ''total'' then snd g + snd g else count_of p ''total'' + snd g)
      else if k = fst g then snd g else count_of p k)"
  by (simp add: progress_add_def count_of_def Let_def map_of_set_field)

lemma count_of_total_foldl:
  "''total'' \<notin> fst ` set gs \<Longrightarrow>
   count_of (foldl progress_add p gs) ''total'' = count_of p ''total'' + sum_list (map snd gs)"
proof (induction gs arbitrary: p)
  case Nil
  then show ?case by simp
next
  case (Cons g gs)
  from Cons.prems have "fst g \<noteq> ''total''" and "''total'' \<notin> fst ` set gs"
    by auto
  then show ?case
    by (simp add: Cons.IH count_of_progress_add)
qed

lemma count_of_other_foldl:
  "k \<noteq> ''total'' \<Longrightarrow> distinct (map fst gs) \<Longrightarrow>
   count_of (foldl progress_add p gs) k =
     (case map_of gs k of None \<Rightarrow> count_of p k | Some c \<Rightarrow> c)"
proof (induction gs arbitrary: p)
  case Nil
  then show ?case by simp
next
  case (Cons g gs)
  obtain st c where g: "g = (st, c)"
    by (cases g)
  from Cons.prems g have fresh: "map_of gs st = None" and dist: "distinct (map fst gs)"
    by (auto simp: map_of_eq_None_iff)
  have ih: "count_of (foldl progress_add (progress_add p g) gs) k =
              (case map_of gs k of None \<Rightarrow> count_of (progress_add p g) k | Some c \<Rightarrow> c)"
    by (rule Cons.IH [OF Cons.prems(1) dist])
  have here: "count_of (progress_add p g) k = (if k = st then c else count_of p k)"
    using Cons.prems(1) by (simp add: count_of_progress_add g)
  show ?case
  proof (cases "k = st")
    case True
    then have "map_of gs k = None"
      using fresh by simp
    with True show ?thesis
      using ih here by (simp add: g)
  next
    case False
    then show ?thesis
      using ih here by (simp add: g split: option.splits)
  qed
qed

lemma map_of_status_groups:
  "map_of (status_groups sts) k = (if k \<in> set sts then Some (count_list sts k) else None)"
proof -
  have "map_of (map (\<lambda>st. (st, count_list sts st)) xs) k =
          (if k \<in> set xs then Some (count_list sts k) else None)" for xs
    by (induction xs) auto
  from this [of "remdups sts"] show ?thesis
    by (simp add: status_groups_def)
qed

lemma sum_status_groups: "sum_list (map snd (status_groups sts)) = length sts"
proof -
  have "sum_list (map snd (status_groups sts)) = sum_list (map (count_list sts) (remdups sts))"
    by (simp add: status_groups_def comp_def)
  also have "\<dots> = sum (count_list sts) (set sts)"
    by (simp add: sum_list_distinct_conv_sum_set)
  also have "\<dots> = length sts"
    by (rule sum_count_set) simp_all
  finally show ?thesis .
qed

lemma getBatchProgress_total:
  assumes "''total'' \<notin> set (batch_statuses b s)"
  shows "count_of (getBatchProgress b s) ''total'' = length (batch_statuses b s)"
proof -
  have "''total'' \<notin> fst ` set (status_groups (batch_statuses b s))"
    using assms by (auto simp: status_groups_def)
  then show ?thesis
    by (simp add: getBatchProgress_def count_of_total_foldl sum_status_groups)
       (simp add: count_of_def progress_init_def)
qed

lemma getBatchProgress_status:
  assumes "k \<noteq> ''total''"
  shows "count_of (getBatchProgress b s) k = count_list (batch_statuses b s) k"
proof -
  have d: "distinct (map fst (status_groups (batch_statuses b s)))"
    by (simp add: status_groups_def comp_def)
  have z: "count_of progress_init k = 0"
    using assms by (simp add: count_of_def progress_init_def)
  show ?thesis
    by (simp add: getBatchProgress_def count_of_other_foldl [OF assms d] map_of_status_groups z
          count_list_0_iff)
qed

text \<open>
  C6, as stated, fails for a batch with a queued record: right after \<open>enqueueBatch\<close>
  the one record of the batch is \<open>queued\<close>, the store reports \<open>total = 1\<close>, and the
  five counters of the claim are all 0.
\<close>

theorem C6_counterexample:
  "count_of (getBatchProgress ''b1'' ex_enqueued) ''total'' = 1
   \<and> count_of (getBatchProgress ''b1'' ex_enqueued) ''pending''
       + count_of (getBatchProgress ''b1'' ex_enqueued) ''processing''
       + count_of (getBatchProgress ''b1'' ex_enqueued) ''completed''
       + count_of (getBatchProgress ''b1'' ex_enqueued) ''failed''
       + count_of (getBatchProgress ''b1'' ex_enqueued) ''cancelled'' = 0
   \<and> count_of (getBatchProgress ''b1'' ex_enqueued) ''queued'' = 1"
  by code_simp

text \<open>
  C6, amended: for every batch whose records have statuses among pending, queued,
  processing, completed, failed and cancelled, the progress returned by the store
  satisfies total = pending + queued + processing + completed + failed + cancelled
  (a counter that the returned object lacks counts as 0). The total is the number of
  records of the batch and each of the six counters is the number of records of the
  batch in that status: the queued records are part of the total and of no other of the
  claim's five counters.
\<close>

theorem getBatchProgress_total_is_sum:
  assumes "set (batch_statuses b s) \<subseteq>
             {''pending'', ''queued'', ''processing'', ''completed'', ''failed'', ''cancelled''}"
  shows "count_of (getBatchProgress b s) ''total'' =
           count_of (getBatchProgress b s) ''pending''
         + count_of (getBatchProgress b s) ''queued''
         + count_of (getBatchProgress b s) ''processing''
         + count_of (getBatchProgress b s) ''completed''
         + count_of (getBatchProgress b s) ''failed''
         + count_of (getBatchProgress b s) ''cancelled''
       \<and> count_of (getBatchProgress b s) ''total'' = length (batch_statuses b s)
       \<and> count_of (getBatchProgress b s) ''pending'' = count_list (batch_statuses b s) ''pending''
       \<and> count_of (getBatchProgress b s) ''queued'' = count_list (batch_statuses b s) ''queued''
       \<and> count_of (getBatchProgress b s) ''processing'' = count_list (batch_statuses b s) ''processing''
       \<and> count_of (getBatchProgress b s) ''completed'' = count_list (batch_statuses b s) ''completed''
       \<and> count_of (getBatchProgress b s) ''failed'' = count_list (batch_statuses b s) ''failed''
       \<and> count_of (getBatchProgress b s) ''cancelled'' = count_list (batch_statuses b s) ''cancelled''"
proof -
  let ?sts = "batch_statuses b s"
  let ?X = "{''pending'', ''queued'', ''processing'', ''completed'', ''failed'', ''cancelled''}"
  have nt: "''total'' \<notin> set ?sts"
    using assms by auto
  have "length ?sts = sum (count_list ?sts) ?X"
    by (rule sum_count_set [symmetric]) (use assms in simp_all)
  also have "\<dots> = count_list ?sts ''pending'' + count_list ?sts ''queued''
                  + count_list ?sts ''processing'' + count_list ?sts ''completed''
                  + count_list ?sts ''failed'' + count_list ?sts ''cancelled''"
    by simp
  finally show ?thesis
    by (simp add: getBatchProgress_total [OF nt] getBatchProgress_status)
qed

theorem getBatchProgress_total_is_sum_witness:
  "set (batch_statuses ''b1'' ex_enqueued) \<subseteq>
             {''pending'', ''queued'', ''processing'', ''completed'', ''failed'', ''cancelled''}
   \<and> count_of (getBatchProgress ''b1'' ex_enqueued) ''total'' =
           count_of (getBatchProgress ''b1'' ex_enqueued) ''pending''
         + count_of (getBatchProgress ''b1'' ex_enqueued) ''queued''
         + count_of (getBatchProgress ''b1'' ex_enqueued) ''processing''
         + count_of (getBatchProgress ''b1'' ex_enqueued) ''completed''
         + count_of (getBatchProgress ''b1'' ex_enqueued) ''failed''
         + count_of (getBatchProgress ''b1'' ex_enqueued) ''cancelled''
   \<and> count_of (getBatchProgress ''b1'' ex_enqueued) ''total'' = 1
   \<and> count_of (getBatchProgress ''b1'' ex_enqueued) ''queued'' = 1
   \<and> count_of (getBatchProgress ''b1'' ex_enqueued) ''pending'' = 0"
proof -
  have sts: "batch_statuses ''b1'' ex_enqueued = [''queued'']"
    by code_simp
  then have h: "set (batch_statuses ''b1'' ex_enqueued) \<subseteq>
             {''pending'', ''queued'', ''processing'', ''completed'', ''failed'', ''cancelled''}"
    by simp
  note c = getBatchProgress_total_is_sum [OF h]
  from c have t: "count_of (getBatchProgress ''b1'' ex_enqueued) ''total'' = 1"
    by (simp add: sts)
  from c have q: "count_of (getBatchProgress ''b1'' ex_enqueued) ''queued'' = 1"
    by (simp add: sts)
  from c have p: "count_of (getBatchProgress ''b1'' ex_enqueued) ''pending'' = 0"
    by (simp add: sts)
  show ?thesis
    using h c t q p by blast
qed

section \<open>Properties of the dispatch\<close>

lemma dispatch_view_updateResponseStatus [simp]:
  "dispatch_view (updateResponseStatus r st s) = dispatch_view s"
  by (simp add: dispatch_view_def updateResponseStatus_def)

lemma dispatch_view_updateBatchProgress [simp]:
  "dispatch_view (updateBatchProgress b s) = dispatch_view s"
  by (simp add: dispatch_view_def updateBatchProgress_def updateBatchStatus_def Let_def)

lemma dispatch_view_deletePartialResults [simp]:
  "dispatch_view (deletePartialResults t s) = dispatch_view s"
  by (simp add: dispatch_view_def deletePartialResults_def)

lemma dispatch_view_setPartialResult [simp]:
  "dispatch_view (snd (setPartialResult t d v s)) = dispatch_view s"
  by (simp add: dispatch_view_def setPartialResult_def Let_def)

lemma dispatch_view_activeTasks [simp]:
  "dispatch_view (s\<lparr>activeTasks := a\<rparr>) = dispatch_view s"
  by (simp add: dispatch_view_def)

lemma dispatch_view_evaluations [simp]:
  "dispatch_view (s\<lparr>evaluations := a\<rparr>) = dispatch_view s"
  by (simp add: dispatch_view_def)

lemma dispatch_view_results_queue [simp]:
  "dispatch_view (s\<lparr>results_queue := a\<rparr>) = dispatch_view s"
  by (simp add: dispatch_view_def)

lemma dispatch_view_addDimensionTask [simp]:
  "dispatch_view (addDimensionTask d t s) = dispatch_view s"
  by (simp add: dispatch_view_def addDimensionTask_def)

lemma dispatch_view_finalizeTaskWithInfo [simp]:
  "dispatch_view (finalizeTaskWithInfo now taskId taskInfo s) = dispatch_view s"
  by (simp add: finalizeTaskWithInfo_def insertEvaluation_def Let_def)

lemma dispatch_view_processDimensionResult [simp]:
  "dispatch_view (processDimensionResult now r s) = dispatch_view s"
  by (simp add: processDimensionResult_def finalizeTask_def finalizeTaskById_def
        case_prod_beta Let_def split: option.splits)

lemma dispatch_view_handle_timeout [simp]:
  "dispatch_view (handle_timeout s e) = dispatch_view s"
  by (simp add: handle_timeout_def Let_def)

lemma dispatch_view_foldl_handle_timeout [simp]:
  "dispatch_view (foldl handle_timeout s xs) = dispatch_view s"
  by (induction xs arbitrary: s) simp_all

lemma dispatch_view_handleTaskFailure [simp]:
  "dispatch_view (handleTaskFailure push_rejects max_retries now uuid t s) = dispatch_view s"
  by (simp add: handleTaskFailure_def requeueMainTask_def addMainTask_def Let_def
        dispatch_view_def updateResponseStatus_def)

lemma dispatch_view_distribute [simp]:
  "dispatch_view (foldl (\<lambda>st d. addDimensionTask d (f d) st) s ds) = dispatch_view s"
  by (induction ds arbitrary: s) simp_all

lemma distribute_main_queue [simp]:
  "main_queue (foldl (\<lambda>st d. addDimensionTask d (f d) st) s ds) = main_queue s"
  by (induction ds arbitrary: s) (simp_all add: addDimensionTask_def)

lemma distribute_responses [simp]:
  "responses (foldl (\<lambda>st d. addDimensionTask d (f d) st) s ds) = responses s"
  by (induction ds arbitrary: s) (simp_all add: addDimensionTask_def)

lemma processMainTask_try_view [simp]:
  "dispatch_view (processMainTask_try n now t s) = dispatch_view s"
  by (simp add: processMainTask_try_def Let_def)

lemma processMainTask_try_main_queue [simp]:
  "main_queue (processMainTask_try n now t s) = main_queue s"
  by (simp add: processMainTask_try_def Let_def updateResponseStatus_def)


lemma processMainTask_finish_view:
  "dispatch_view (processMainTask_finish fault push_rejects max_retries now uuid t s) =
     (runningTasks s - 1, remove1 t (dispatching s), maxConcurrentTasks s)"
proof -
  have v: "dispatch_view (s'\<lparr>runningTasks := runningTasks s' - 1,
                              dispatching := remove1 t (dispatching s')\<rparr>) =
             (fst (dispatch_view s') - 1, remove1 t (fst (snd (dispatch_view s'))),
              snd (snd (dispatch_view s')))" for s'
    by (simp add: dispatch_view_def)
  show ?thesis
    unfolding processMainTask_finish_def Let_def v
    by (simp add: dispatch_view_def [of s])
qed




section \<open>Claims about retries\<close>

text \<open>
  C4 fails on the code. \<open>requeueFailedResponse\<close> builds the task from the stored
  record, without a retry count, so \<open>requeueTask\<close> always compares 0 + 1 with the
  ceiling and the branch \<open>max_retries_exceeded\<close> is not reached. Here the record \<open>r1\<close>
  is failed and has been requeued four times, more than the ceiling of 3; the fifth call
  succeeds, pushes a fifth task (on the legacy task queue) and marks the record queued.
\<close>

theorem requeueFailedResponse_fifth_retry:
  "MAX_RETRIES None = 3
   \<and> map_option r_status (getResponseById ''r1'' (ex_requeued 4)) = Some ''failed''
   \<and> length (task_queue (ex_requeued 4)) = 4
   \<and> ex_fifth_outcome = Some Requeued
   \<and> map mt_retry_count (task_queue ex_fifth_state) = [Some 1, Some 1, Some 1, Some 1, Some 1]
   \<and> map_option r_status (getResponseById ''r1'' ex_fifth_state) = Some ''queued''"
  by code_simp








section \<open>Claims about the dispatch loop\<close>

lemma step_dispatch_invariant:
  assumes "runningTasks s = int (length (dispatching s))"
      and "runningTasks s \<le> maxConcurrentTasks s"
  shows "runningTasks (step max_retries now uuid e s) =
           int (length (dispatching (step max_retries now uuid e s)))
       \<and> runningTasks (step max_retries now uuid e s)
           \<le> maxConcurrentTasks (step max_retries now uuid e s)
       \<and> maxConcurrentTasks (step max_retries now uuid e s) = maxConcurrentTasks s"
proof (cases e)
  case MainLoop
  then show ?thesis
    using assms
    by (auto simp: step_def processMainQueue_iter_def getMainTask_def processMainTask_start_def
          split: list.splits)
next
  case (Dispatch taskId fault push_rejects)
  show ?thesis
  proof (cases "filter (\<lambda>t. mt_task_id t = taskId) (dispatching s)")
    case Nil
    with Dispatch assms show ?thesis by (simp add: step_def)
  next
    case (Cons t ts)
    then have "t \<in> set (filter (\<lambda>t. mt_task_id t = taskId) (dispatching s))"
      by simp
    then have mem: "t \<in> set (dispatching s)"
      by simp
    then have pos: "0 < length (dispatching s)"
      by (cases "dispatching s") auto
    have st: "step max_retries now uuid e s =
                processMainTask_finish fault push_rejects max_retries now uuid t s"
      by (simp add: step_def Dispatch Cons)
    have "dispatch_view (step max_retries now uuid e s) =
            (runningTasks s - 1, remove1 t (dispatching s), maxConcurrentTasks s)"
      by (simp add: st processMainTask_finish_view)
    then have r: "runningTasks (step max_retries now uuid e s) = runningTasks s - 1"
      and d: "dispatching (step max_retries now uuid e s) = remove1 t (dispatching s)"
      and m: "maxConcurrentTasks (step max_retries now uuid e s) = maxConcurrentTasks s"
      by (simp_all add: dispatch_view_def)
    have "length (remove1 t (dispatching s)) = length (dispatching s) - 1"
      using mem by (simp add: length_remove1)
    with pos have "int (length (remove1 t (dispatching s))) = int (length (dispatching s)) - 1"
      by linarith
    with assms show ?thesis
      by (simp add: r d m)
  qed
next
  case (WorkerPush r)
  with assms show ?thesis by (simp add: step_def)
next
  case Collect
  have "dispatch_view (step max_retries now uuid e s) = dispatch_view s"
    by (simp add: Collect step_def collectResults_iter_def split: list.splits)
  with assms show ?thesis by (simp add: dispatch_view_def)
next
  case Sweep
  have "dispatch_view (step max_retries now uuid e s) = dispatch_view s"
    by (simp add: Sweep step_def checkTaskTimeouts_def)
  with assms show ?thesis by (simp add: dispatch_view_def)
qed

lemma run_dispatch_invariant:
  assumes "runningTasks s = int (length (dispatching s))"
      and "runningTasks s \<le> maxConcurrentTasks s"
  shows "runningTasks (run max_retries es s) = int (length (dispatching (run max_retries es s)))
       \<and> runningTasks (run max_retries es s) \<le> maxConcurrentTasks (run max_retries es s)
       \<and> maxConcurrentTasks (run max_retries es s) = maxConcurrentTasks s"
  using assms
proof (induction es arbitrary: s)
  case Nil
  then show ?case by simp
next
  case (Cons e es)
  note st = step_dispatch_invariant [OF Cons.prems, of max_retries "fst e" "fst (snd e)" "snd (snd e)"]
  from Cons.IH [of "step max_retries (fst e) (fst (snd e)) (snd (snd e)) s"] st
  show ?case by simp
qed

text \<open>
  C5, as stated, fails: the counter that the dispatch loop compares with the cap is
  decremented when the fan-out of a task ends, not when the task is finalised. With a cap
  of 1: after \<open>t1\<close> is dispatched one task is in flight, which equals the cap; the next
  iteration of the loop pops \<open>t2\<close> all the same, and once its fan-out is done both
  records are in status \<open>processing\<close>.
\<close>

theorem C5_counterexample:
  "maxConcurrentTasks ex_cap1_first = 1
   \<and> map fst (activeTasks ex_cap1_first) = [''t1'']
   \<and> map mt_task_id (main_queue ex_cap1_first) = [''t2'']
   \<and> main_queue (step 3 1100 ''u'' MainLoop ex_cap1_first) = []
   \<and> map_option r_status (getResponseById ''r1'' ex_cap1_second) = Some ''processing''
   \<and> map_option r_status (getResponseById ''r2'' ex_cap1_second) = Some ''processing''"
  by code_simp

text \<open>
  C5, amended: in every state the orchestrator reaches from a start with no dispatch in
  progress, \<open>runningTasks\<close> is the number of calls of \<open>processMainTask\<close> that have
  started and not yet finished their fan-out, this number never exceeds
  \<open>maxConcurrentTasks\<close>, and while it equals the cap an iteration of the dispatch loop
  leaves the main queue as it is. Tasks that are dispatched and await their results are
  not counted.
\<close>

theorem processMainQueue_respects_running_cap:
  assumes "runningTasks s0 = 0" and "dispatching s0 = []" and "0 \<le> maxConcurrentTasks s0"
  shows "runningTasks (run max_retries es s0) = int (length (dispatching (run max_retries es s0)))
       \<and> int (length (dispatching (run max_retries es s0))) \<le> maxConcurrentTasks s0
       \<and> (runningTasks (run max_retries es s0) < maxConcurrentTasks s0
           \<or> main_queue (step max_retries now uuid MainLoop (run max_retries es s0))
               = main_queue (run max_retries es s0))"
proof -
  have a: "runningTasks s0 = int (length (dispatching s0))"
    using assms by simp
  have b: "runningTasks s0 \<le> maxConcurrentTasks s0"
    using assms by simp
  note inv = run_dispatch_invariant [OF a b, of max_retries es]
  have "runningTasks (run max_retries es s0) < maxConcurrentTasks s0
           \<or> main_queue (step max_retries now uuid MainLoop (run max_retries es s0))
               = main_queue (run max_retries es s0)"
    using inv by (auto simp: step_def processMainQueue_iter_def)
  with inv show ?thesis by simp
qed

theorem processMainQueue_respects_running_cap_witness:
  "runningTasks ex_cap1 = 0 \<and> dispatching ex_cap1 = [] \<and> 0 \<le> maxConcurrentTasks ex_cap1
   \<and> runningTasks (run 3 [(1000, ''u'', MainLoop)] ex_cap1) = 1
   \<and> length (dispatching (run 3 [(1000, ''u'', MainLoop)] ex_cap1)) = 1
   \<and> main_queue (step 3 1001 ''u'' MainLoop (run 3 [(1000, ''u'', MainLoop)] ex_cap1))
       = main_queue (run 3 [(1000, ''u'', MainLoop)] ex_cap1)"
proof -
  have h1: "runningTasks ex_cap1 = 0" by code_simp
  have h2: "dispatching ex_cap1 = []" by code_simp
  have h3: "0 \<le> maxConcurrentTasks ex_cap1" by code_simp
  have m: "maxConcurrentTasks ex_cap1 = 1" by code_simp
  have l: "length (dispatching (run 3 [(1000, ''u'', MainLoop)] ex_cap1)) = 1" by code_simp
  note c = processMainQueue_respects_running_cap
             [OF h1 h2 h3, of 3 "[(1000, ''u'', MainLoop)]" 1001 "''u''"]
  from c l have r: "runningTasks (run 3 [(1000, ''u'', MainLoop)] ex_cap1) = 1"
    by linarith
  with c m have q: "main_queue (step 3 1001 ''u'' MainLoop (run 3 [(1000, ''u'', MainLoop)] ex_cap1))
       = main_queue (run 3 [(1000, ''u'', MainLoop)] ex_cap1)"
    by linarith
  show ?thesis
    using h1 h2 h3 l r q by blast
qed

section \<open>Claims about the timeout sweeper\<close>
















section \<open>Claims about a second finalisation\<close>












end
